theory Spec2Isabelle
  imports Complex_Main "HOL-Library.Monad_Syntax"
begin

section \<open>JavaScript values read by the handlers\<close>

text \<open>
  A JavaScript number is \<open>NaN\<close>, an infinity or a finite IEEE 754 double. A finite
  value is kept as the rational number it denotes; \<open>-0\<close> is not told apart from \<open>0\<close> (both
  are falsy and compare alike). Whatever produces a number, the reading of a literal or
  an arithmetic operation, rounds the exact result to a double.
\<close>

datatype jsnum = NaN | NegInf | Fin rat | PosInf

fun js_neg :: "jsnum \<Rightarrow> jsnum" where
  "js_neg NaN = NaN"
| "js_neg NegInf = PosInf"
| "js_neg (Fin r) = Fin (- r)"
| "js_neg PosInf = NegInf"

subsection \<open>Rounding to a double\<close>

text \<open>\<open>floor_log2 n\<close> is the \<open>e\<close> with \<open>2^e \<le> n < 2^(e+1)\<close>, for \<open>n \<ge> 1\<close>.\<close>

function floor_log2 :: "int \<Rightarrow> int" where
  "floor_log2 n = (if n < 2 then 0 else 1 + floor_log2 (n div 2))"
  by pat_completeness auto
termination
  by (relation "measure nat") auto

declare floor_log2.simps [simp del]

definition pow2 :: "int \<Rightarrow> rat" where
  "pow2 e = (if 0 \<le> e then 2 ^ nat e else 1 / 2 ^ nat (- e))"

text \<open>The binary exponent of a positive rational: the \<open>e\<close> with \<open>2^e \<le> r < 2^(e+1)\<close>.\<close>

definition exponent_of :: "rat \<Rightarrow> int" where
  "exponent_of r =
     (if 1 \<le> r then floor_log2 \<lfloor>r\<rfloor>
      else
        (let k = floor_log2 \<lfloor>1 / r\<rfloor>
         in if pow2 (- k) \<le> r then - k else - k - 1))"

text \<open>The nearest integer, a tie going to the even one.\<close>

definition round_half_even :: "rat \<Rightarrow> int" where
  "round_half_even x =
     (let f = \<lfloor>x\<rfloor>; d = x - of_int f
      in if d < 1 / 2 then f
         else if 1 / 2 < d then f + 1
         else if even f then f else f + 1)"

text \<open>
  A positive rational rounded to the nearest double, ties to even (binary64: 53
  significant bits, least exponent \<open>-1022\<close>, so the doubles near \<open>r\<close> are the multiples of
  \<open>2^(max(e, -1022) - 52)\<close>). A result of \<open>2^1024\<close> or more, that is, of binary exponent
  1024 or more, is \<open>Infinity\<close>; a value below half of the least subnormal \<open>2^(-1074)\<close>
  rounds to \<open>0\<close>.
\<close>

definition round_pos :: "rat \<Rightarrow> jsnum" where
  "round_pos r =
     (let q = pow2 (max (exponent_of r) (- 1022) - 52);
          v = of_int (round_half_even (r / q)) * q
      in if 0 < v \<and> 1024 \<le> exponent_of v then PosInf else Fin v)"

definition to_double :: "rat \<Rightarrow> jsnum" where
  "to_double r =
     (if r = 0 then Fin 0
      else if 0 < r then round_pos r
      else js_neg (round_pos (- r)))"

text \<open>
  The parsed JSON body that \<open>express.json()\<close> hands to a handler. \<open>JObj\<close> lists the own
  properties of the parsed object, \<open>JNum\<close> carries the number the parser produced.
\<close>

datatype json =
    JNull
  | JBool bool
  | JNum jsnum
  | JStr string
  | JArr "json list"
  | JObj "(string \<times> json) list"

text \<open>
  \<open>req.body[field]\<close>: the property of an object, \<open>undefined\<close> (\<open>None\<close>) when the object
  has no such property. A body that is an array has none of the field names the handlers
  read.
\<close>

fun body_field :: "json \<Rightarrow> string \<Rightarrow> json option" where
  "body_field (JObj kvs) field = map_of kvs field"
| "body_field _ field = None"

text \<open>The number test of \<open>ToBoolean\<close>: \<open>0\<close> and \<open>NaN\<close> are falsy.\<close>

fun num_truthy :: "jsnum \<Rightarrow> bool" where
  "num_truthy NaN = False"
| "num_truthy (Fin r) = (r \<noteq> 0)"
| "num_truthy _ = True"

text \<open>
  \<open>ToBoolean\<close> on a value that may be \<open>undefined\<close>: \<open>undefined\<close>, \<open>null\<close>, \<open>false\<close>,
  \<open>0\<close>, \<open>NaN\<close> and the empty string are falsy; every array and every object is truthy.
\<close>

fun truthy :: "json option \<Rightarrow> bool" where
  "truthy None = False"
| "truthy (Some JNull) = False"
| "truthy (Some (JBool b)) = b"
| "truthy (Some (JNum n)) = num_truthy n"
| "truthy (Some (JStr s)) = (s \<noteq> [])"
| "truthy (Some (JArr xs)) = True"
| "truthy (Some (JObj kvs)) = True"

subsection \<open>\<open>Number(req.query.page)\<close>\<close>

text \<open>
  \<open>Number\<close> applied to a query parameter that is absent or a single string of ASCII
  characters (ECMAScript \<open>StringToNumber\<close>): white space is trimmed, the empty string is
  \<open>0\<close>, a signed decimal literal with optional fraction and exponent, \<open>Infinity\<close>, and
  unsigned binary, octal and hexadecimal literals are numbers, anything else is \<open>NaN\<close>.
  The number is the exact value of the literal rounded to a double.
\<close>

definition is_ws :: "char \<Rightarrow> bool" where
  "is_ws c = (c \<in> set [CHR 0x09, CHR 0x0A, CHR 0x0B, CHR 0x0C, CHR 0x0D, CHR 0x20])"

definition trim :: "string \<Rightarrow> string" where
  "trim s = rev (dropWhile is_ws (rev (dropWhile is_ws s)))"

definition digit_of :: "char \<Rightarrow> nat option" where
  "digit_of c =
     (let n = (of_char c :: nat) in
      if 48 \<le> n \<and> n \<le> 57 then Some (n - 48)
      else if 97 \<le> n \<and> n \<le> 102 then Some (n - 87)
      else if 65 \<le> n \<and> n \<le> 70 then Some (n - 55)
      else None)"

definition is_digit_in :: "nat \<Rightarrow> char \<Rightarrow> bool" where
  "is_digit_in b c = (case digit_of c of Some d \<Rightarrow> d < b | None \<Rightarrow> False)"

definition digits_val :: "int \<Rightarrow> string \<Rightarrow> int" where
  "digits_val b s =
     foldl (\<lambda>acc c. acc * b + (case digit_of c of Some d \<Rightarrow> int d | None \<Rightarrow> 0)) 0 s"

definition parse_radix :: "nat \<Rightarrow> string \<Rightarrow> jsnum" where
  "parse_radix b s =
     (if s \<noteq> [] \<and> list_all (is_digit_in b) s then to_double (of_int (digits_val (int b) s))
      else NaN)"

text \<open>The exponent part: empty, or \<open>e\<close>/\<open>E\<close>, an optional sign and at least one digit.\<close>

definition parse_exponent :: "string \<Rightarrow> int option" where
  "parse_exponent s =
     (case s of
        [] \<Rightarrow> Some 0
      | c # t \<Rightarrow>
          if c = CHR ''e'' \<or> c = CHR ''E'' then
            (let (neg, ds) =
                   (case t of
                      d # u \<Rightarrow> if d = CHR ''-'' then (True, u)
                               else if d = CHR ''+'' then (False, u) else (False, t)
                    | [] \<Rightarrow> (False, t))
             in if ds \<noteq> [] \<and> list_all (is_digit_in 10) ds
                then Some (if neg then - digits_val 10 ds else digits_val 10 ds)
                else None)
          else None)"

definition scale10 :: "rat \<Rightarrow> int \<Rightarrow> rat" where
  "scale10 m e = (if 0 \<le> e then m * 10 ^ nat e else m / 10 ^ nat (- e))"

definition parse_unsigned_decimal :: "string \<Rightarrow> jsnum" where
  "parse_unsigned_decimal s =
     (if s = ''Infinity'' then PosInf
      else
        (let ip = takeWhile (is_digit_in 10) s;
             r1 = dropWhile (is_digit_in 10) s;
             (fp, r2) =
               (case r1 of
                  c # t \<Rightarrow>
                    if c = CHR ''.''
                    then (takeWhile (is_digit_in 10) t, dropWhile (is_digit_in 10) t)
                    else ([], r1)
                | [] \<Rightarrow> ([], r1))
         in if ip = [] \<and> fp = [] then NaN
            else
              (case parse_exponent r2 of
                 None \<Rightarrow> NaN
               | Some e \<Rightarrow>
                   to_double
                     (scale10 (of_int (digits_val 10 (ip @ fp)) / 10 ^ length fp) e))))"

definition parse_decimal :: "string \<Rightarrow> jsnum" where
  "parse_decimal s =
     (case s of
        c # t \<Rightarrow>
          if c = CHR ''-'' then js_neg (parse_unsigned_decimal t)
          else if c = CHR ''+'' then parse_unsigned_decimal t
          else parse_unsigned_decimal s
      | [] \<Rightarrow> NaN)"

definition StringToNumber :: "string \<Rightarrow> jsnum" where
  "StringToNumber s =
     (let t = trim s in
      case t of
        [] \<Rightarrow> Fin 0
      | [c] \<Rightarrow> parse_decimal t
      | c # x # rest \<Rightarrow>
          if c = CHR ''0'' \<and> (x = CHR ''x'' \<or> x = CHR ''X'') then parse_radix 16 rest
          else if c = CHR ''0'' \<and> (x = CHR ''o'' \<or> x = CHR ''O'') then parse_radix 8 rest
          else if c = CHR ''0'' \<and> (x = CHR ''b'' \<or> x = CHR ''B'') then parse_radix 2 rest
          else parse_decimal t)"

text \<open>\<open>Number(v)\<close> for a query parameter \<open>v\<close>: \<open>Number(undefined)\<close> is \<open>NaN\<close>.\<close>

fun Number :: "string option \<Rightarrow> jsnum" where
  "Number None = NaN"
| "Number (Some s) = StringToNumber s"

text \<open>\<open>x || d\<close> on numbers: \<open>d\<close> when \<open>x\<close> is falsy.\<close>

definition or_default :: "jsnum \<Rightarrow> jsnum \<Rightarrow> jsnum" where
  "or_default x d = (if num_truthy x then x else d)"

text \<open>\<open>x < y\<close> on numbers: false as soon as one side is \<open>NaN\<close>.\<close>

fun js_less :: "jsnum \<Rightarrow> jsnum \<Rightarrow> bool" where
  "js_less NaN _ = False"
| "js_less _ NaN = False"
| "js_less NegInf NegInf = False"
| "js_less NegInf _ = True"
| "js_less (Fin a) NegInf = False"
| "js_less (Fin a) (Fin b) = (a < b)"
| "js_less (Fin a) PosInf = True"
| "js_less PosInf _ = False"

text \<open>\<open>x - y\<close> and \<open>x * y\<close> on numbers: the exact result, rounded.\<close>

fun js_sub :: "jsnum \<Rightarrow> jsnum \<Rightarrow> jsnum" where
  "js_sub NaN _ = NaN"
| "js_sub _ NaN = NaN"
| "js_sub (Fin a) (Fin b) = to_double (a - b)"
| "js_sub (Fin a) PosInf = NegInf"
| "js_sub (Fin a) NegInf = PosInf"
| "js_sub PosInf PosInf = NaN"
| "js_sub PosInf _ = PosInf"
| "js_sub NegInf NegInf = NaN"
| "js_sub NegInf _ = NegInf"

fun js_sign :: "jsnum \<Rightarrow> int" where
  "js_sign NaN = 0"
| "js_sign NegInf = - 1"
| "js_sign PosInf = 1"
| "js_sign (Fin r) = (if r < 0 then - 1 else if r = 0 then 0 else 1)"

fun js_mul :: "jsnum \<Rightarrow> jsnum \<Rightarrow> jsnum" where
  "js_mul NaN _ = NaN"
| "js_mul _ NaN = NaN"
| "js_mul (Fin a) (Fin b) = to_double (a * b)"
| "js_mul x y =
     (if js_sign x * js_sign y = 0 then NaN
      else if js_sign x * js_sign y < 0 then NegInf else PosInf)"

section \<open>Documents and the store\<close>

text \<open>
  An \<open>ObjectId\<close> is kept as the string it is serialised to in a response and received as
  in a path.
\<close>

type_synonym oid = string

text \<open>
  \<open>IGames\<close> of \<open>games.model.ts\<close>, with the document's \<open>_id\<close>; the version key
  \<open>__v\<close>, which no handler reads or sets, is left out.
\<close>

record game =
  game_id :: oid
  title :: string
  releaseYear :: jsnum
  platforms :: "string list"
  genre :: string
  description :: string
  mainCharacters :: "oid list"
  enemies :: "string list"
  locations :: "string list"
  developer :: string

text \<open>\<open>ICharacters\<close> of the characters model, with the document's \<open>_id\<close>.\<close>

record character =
  character_id :: oid
  name :: string
  description :: string
  age :: jsnum
  nationality :: string
  height :: string
  weight :: string
  occupations :: "string list"
  games :: "oid list"
  organizations :: "string list"

text \<open>
  The two collections, each in natural storage order: a saved document goes to the end,
  an updated one keeps its place. The store is taken to be reachable: a store call
  throws only for the reasons given with its definition below.
\<close>

record store =
  Games :: "game list"
  Characters :: "character list"

text \<open>
  What the handlers call in the \<open>mongoose\<close> library and what this development takes as
  given: \<open>mongoose.Types.ObjectId.isValid\<close>; the cast of a path identifier to an
  \<open>ObjectId\<close> (\<open>None\<close>: a \<open>CastError\<close>); the casts of the schema types \<open>String\<close>,
  \<open>Number\<close>, \<open>[String]\<close> and \<open>[ObjectId]\<close>; the validators that \<open>save()\<close> runs on a
  document of either model; and the count a cursor makes of a \<open>skip\<close> or \<open>limit\<close> value
  that is not an integer from \<open>0\<close> to \<open>2^53 - 1\<close> (\<open>None\<close>: the query throws).
\<close>

record mongoose =
  ObjectId_isValid :: "json \<Rightarrow> bool"
  castObjectId :: "string \<Rightarrow> oid option"
  castString :: "json \<Rightarrow> string option"
  castNumber :: "json \<Rightarrow> jsnum option"
  castStringArray :: "json \<Rightarrow> string list option"
  castObjectIdArray :: "json \<Rightarrow> oid list option"
  validateGame :: "game \<Rightarrow> bool"
  validateCharacter :: "character \<Rightarrow> bool"
  cursorCount :: "jsnum \<Rightarrow> nat option"

subsection \<open>Responses\<close>

text \<open>
  The JSON body of a response: a message, one game, a page of games with each
  \<open>mainCharacters\<close> entry resolved to the identifier and name of the character, one
  character with its \<open>games\<close> resolved to the game documents, a page of characters with
  each \<open>games\<close> entry resolved to the identifier and title of the game.
\<close>

datatype body =
    Message string
  | GameBody game
  | GamesPage jsnum jsnum nat "(game \<times> (oid \<times> string) list) list"
  | CharacterBody character "game list"
  | CharactersPage jsnum jsnum nat "(character \<times> (oid \<times> string) list) list"

type_synonym response = "nat \<times> body"

definition internal_server_error :: response where
  "internal_server_error = (500, Message ''Internal Server Error'')"

subsection \<open>The required-field check\<close>

definition required_message :: "string \<Rightarrow> string" where
  \<open>required_message field = ''The field "'' @ field @ ''" is required''\<close>

text \<open>
  The loop \<open>for (const field of requiredFields) if (!req.body[field]) ... return\<close>: the
  first field of the list whose value is falsy, if there is one.
\<close>

fun first_missing :: "json \<Rightarrow> string list \<Rightarrow> string option" where
  "first_missing b [] = None"
| "first_missing b (field # rest) =
     (if \<not> truthy (body_field b field) then Some field else first_missing b rest)"

definition createGame_requiredFields :: "string list" where
  "createGame_requiredFields =
     [''title'', ''releaseYear'', ''platforms'', ''genre'', ''description'', ''developer'']"

definition updateGameById_requiredFields :: "string list" where
  "updateGameById_requiredFields =
     [''title'', ''releaseYear'', ''platforms'', ''genre'', ''description'', ''developer'',
      ''mainCharacters'']"

definition createCharacter_requiredFields :: "string list" where
  "createCharacter_requiredFields =
     [''name'', ''description'', ''age'', ''nationality'', ''height'', ''weight'',
      ''occupations'', ''games'']"

subsection \<open>Store operations\<close>

text \<open>A value given to a model constructor under a scalar path: it is cast; a path
  that is required and left \<open>undefined\<close> fails validation.\<close>

definition cast_path :: "(json \<Rightarrow> 'a option) \<Rightarrow> json option \<Rightarrow> 'a option" where
  "cast_path c v = (case v of None \<Rightarrow> None | Some j \<Rightarrow> c j)"

text \<open>An array path left \<open>undefined\<close> takes the default, the empty array.\<close>

definition cast_array :: "(json \<Rightarrow> 'a list option) \<Rightarrow> json option \<Rightarrow> 'a list option" where
  "cast_array c v = (case v of None \<Rightarrow> Some [] | Some j \<Rightarrow> c j)"

text \<open>
  \<open>new Games({title, releaseYear, platforms, genre, description, developer})\<close> with a
  generated \<open>_id\<close>: the six values are cast, the array paths that are not given are empty.
  \<open>None\<close> stands for the cast error that \<open>save()\<close> would throw.
\<close>

definition Games_new ::
  "mongoose \<Rightarrow> oid \<Rightarrow> json option \<Rightarrow> json option \<Rightarrow> json option \<Rightarrow> json option \<Rightarrow>
   json option \<Rightarrow> json option \<Rightarrow> game option" where
  "Games_new M new_id t y p g d dv =
     do {
       t' \<leftarrow> cast_path (castString M) t;
       y' \<leftarrow> cast_path (castNumber M) y;
       p' \<leftarrow> cast_array (castStringArray M) p;
       g' \<leftarrow> cast_path (castString M) g;
       d' \<leftarrow> cast_path (castString M) d;
       dv' \<leftarrow> cast_path (castString M) dv;
       Some \<lparr>game_id = new_id, title = t', releaseYear = y', platforms = p', genre = g',
             game.description = d', mainCharacters = [], enemies = [], locations = [],
             developer = dv'\<rparr>
     }"

text \<open>
  \<open>newGame.save()\<close>: the validators run, then the document is inserted; the insert
  fails on a duplicate \<open>_id\<close> and on a duplicate \<open>title\<close> (\<open>unique: true\<close>). \<open>None\<close>
  stands for the exception.
\<close>

definition Games_save :: "mongoose \<Rightarrow> store \<Rightarrow> game \<Rightarrow> store option" where
  "Games_save M db g =
     (if \<not> validateGame M g then None
      else if game_id g \<in> set (map game_id (Games db)) \<or> title g \<in> set (map title (Games db))
      then None
      else Some (db\<lparr>Games := Games db @ [g]\<rparr>))"

definition Characters_new ::
  "mongoose \<Rightarrow> oid \<Rightarrow> json option \<Rightarrow> json option \<Rightarrow> json option \<Rightarrow> json option \<Rightarrow>
   json option \<Rightarrow> json option \<Rightarrow> json option \<Rightarrow> json option \<Rightarrow> character option" where
  "Characters_new M new_id n d a na h w oc gs =
     do {
       n' \<leftarrow> cast_path (castString M) n;
       d' \<leftarrow> cast_path (castString M) d;
       a' \<leftarrow> cast_path (castNumber M) a;
       na' \<leftarrow> cast_path (castString M) na;
       h' \<leftarrow> cast_path (castString M) h;
       w' \<leftarrow> cast_path (castString M) w;
       oc' \<leftarrow> cast_array (castStringArray M) oc;
       gs' \<leftarrow> cast_array (castObjectIdArray M) gs;
       Some \<lparr>character_id = new_id, name = n', description = d', age = a',
             nationality = na', height = h', weight = w', occupations = oc', games = gs',
             organizations = []\<rparr>
     }"

definition Characters_save :: "mongoose \<Rightarrow> store \<Rightarrow> character \<Rightarrow> store option" where
  "Characters_save M db c =
     (if \<not> validateCharacter M c then None
      else if character_id c \<in> set (map character_id (Characters db)) then None
      else Some (db\<lparr>Characters := Characters db @ [c]\<rparr>))"

text \<open>\<open>Games.findById(id)\<close> after the cast of \<open>id\<close>.\<close>

definition Games_findById :: "store \<Rightarrow> oid \<Rightarrow> game option" where
  "Games_findById db i = find (\<lambda>g. game_id g = i) (Games db)"

definition Characters_findById :: "store \<Rightarrow> oid \<Rightarrow> character option" where
  "Characters_findById db i = find (\<lambda>c. character_id c = i) (Characters db)"

text \<open>
  The count a cursor makes of a \<open>skip\<close> or \<open>limit\<close> value: an integer from \<open>0\<close> to
  \<open>2^53 - 1\<close> is itself, any other value is the library's to interpret or to reject.
\<close>

definition count_of :: "mongoose \<Rightarrow> jsnum \<Rightarrow> nat option" where
  "count_of M x =
     (case x of
        Fin r \<Rightarrow>
          if 0 \<le> r \<and> r \<le> 2 ^ 53 - 1 \<and> of_int \<lfloor>r\<rfloor> = r then Some (nat \<lfloor>r\<rfloor>)
          else cursorCount M x
      | _ \<Rightarrow> cursorCount M x)"

text \<open>
  \<open>find().skip(skip).limit(limit)\<close> over a collection in natural order; a limit of \<open>0\<close>
  is no limit. \<open>None\<close> stands for the exception.
\<close>

definition find_skip_limit :: "mongoose \<Rightarrow> 'a list \<Rightarrow> jsnum \<Rightarrow> jsnum \<Rightarrow> 'a list option" where
  "find_skip_limit M docs skip limit =
     do {
       s \<leftarrow> count_of M skip;
       l \<leftarrow> count_of M limit;
       Some (if l = 0 then drop s docs else take l (drop s docs))
     }"

text \<open>
  \<open>populate("mainCharacters", "name")\<close>: each reference that resolves is replaced by
  the identifier and name of the character, one that does not resolve is left out.
\<close>

definition populate_mainCharacters :: "store \<Rightarrow> game \<Rightarrow> game \<times> (oid \<times> string) list" where
  "populate_mainCharacters db g =
     (g, List.map_filter
           (\<lambda>i. map_option (\<lambda>c. (character_id c, name c)) (Characters_findById db i))
           (mainCharacters g))"

text \<open>\<open>populate("games", "title")\<close> on a listed character.\<close>

definition populate_games_title :: "store \<Rightarrow> character \<Rightarrow> character \<times> (oid \<times> string) list" where
  "populate_games_title db c =
     (c, List.map_filter
           (\<lambda>i. map_option (\<lambda>g. (game_id g, title g)) (Games_findById db i))
           (games c))"

text \<open>\<open>populate("games")\<close> on a character that was just saved.\<close>

definition populate_games :: "store \<Rightarrow> character \<Rightarrow> game list" where
  "populate_games db c = List.map_filter (Games_findById db) (games c)"

subsection \<open>\<open>findByIdAndUpdate\<close> and \<open>findByIdAndDelete\<close>\<close>

text \<open>
  The update object given to \<open>findByIdAndUpdate\<close>: for each of the seven properties the
  value it was given, \<open>None\<close> when the object has no such property.
\<close>

record game_update =
  upd_title :: "json option"
  upd_releaseYear :: "json option"
  upd_platforms :: "json option"
  upd_genre :: "json option"
  upd_description :: "json option"
  upd_developer :: "json option"
  upd_mainCharacters :: "json option"

text \<open>The update after the casts of the schema: the paths to set and their values.\<close>

record game_set =
  set_title :: "string option"
  set_releaseYear :: "jsnum option"
  set_platforms :: "string list option"
  set_genre :: "string option"
  set_description :: "string option"
  set_developer :: "string option"
  set_mainCharacters :: "oid list option"

definition cast_set :: "(json \<Rightarrow> 'a option) \<Rightarrow> json option \<Rightarrow> 'a option option" where
  "cast_set c v = (case v of None \<Rightarrow> Some None | Some j \<Rightarrow> map_option Some (c j))"

definition cast_update :: "mongoose \<Rightarrow> game_update \<Rightarrow> game_set option" where
  "cast_update M u =
     do {
       t \<leftarrow> cast_set (castString M) (upd_title u);
       y \<leftarrow> cast_set (castNumber M) (upd_releaseYear u);
       p \<leftarrow> cast_set (castStringArray M) (upd_platforms u);
       g \<leftarrow> cast_set (castString M) (upd_genre u);
       d \<leftarrow> cast_set (castString M) (upd_description u);
       dv \<leftarrow> cast_set (castString M) (upd_developer u);
       mc \<leftarrow> cast_set (castObjectIdArray M) (upd_mainCharacters u);
       Some \<lparr>set_title = t, set_releaseYear = y, set_platforms = p, set_genre = g,
             set_description = d, set_developer = dv, set_mainCharacters = mc\<rparr>
     }"

definition apply_update :: "game_set \<Rightarrow> game \<Rightarrow> game" where
  "apply_update u g =
     g\<lparr>title := (case set_title u of Some v \<Rightarrow> v | None \<Rightarrow> title g),
       releaseYear := (case set_releaseYear u of Some v \<Rightarrow> v | None \<Rightarrow> releaseYear g),
       platforms := (case set_platforms u of Some v \<Rightarrow> v | None \<Rightarrow> platforms g),
       genre := (case set_genre u of Some v \<Rightarrow> v | None \<Rightarrow> genre g),
       game.description :=
         (case set_description u of Some v \<Rightarrow> v | None \<Rightarrow> game.description g),
       developer := (case set_developer u of Some v \<Rightarrow> v | None \<Rightarrow> developer g),
       mainCharacters :=
         (case set_mainCharacters u of Some v \<Rightarrow> v | None \<Rightarrow> mainCharacters g)\<rparr>"

text \<open>The first element that satisfies \<open>P\<close> replaced, or taken out.\<close>

fun update_first :: "('a \<Rightarrow> bool) \<Rightarrow> 'a \<Rightarrow> 'a list \<Rightarrow> 'a list" where
  "update_first P y [] = []"
| "update_first P y (x # xs) = (if P x then y # xs else x # update_first P y xs)"

fun remove_first :: "('a \<Rightarrow> bool) \<Rightarrow> 'a list \<Rightarrow> 'a list" where
  "remove_first P [] = []"
| "remove_first P (x # xs) = (if P x then xs else x # remove_first P xs)"

text \<open>
  \<open>Games.findByIdAndUpdate(id, update, {new: true})\<close>. The outer \<open>None\<close> stands for an
  exception: a cast error on \<open>id\<close> or on a value of the update, or a title that another
  document already has. Otherwise the result is \<open>null\<close> (\<open>None\<close>) when no document has the
  identifier, and the document after the update when one has.
\<close>

definition Games_findByIdAndUpdate ::
  "mongoose \<Rightarrow> store \<Rightarrow> string \<Rightarrow> game_update \<Rightarrow> (game option \<times> store) option" where
  "Games_findByIdAndUpdate M db gid u =
     do {
       i \<leftarrow> castObjectId M gid;
       s \<leftarrow> cast_update M u;
       (case Games_findById db i of
          None \<Rightarrow> Some (None, db)
        | Some g \<Rightarrow>
            if (case set_title s of
                  Some t \<Rightarrow> t \<noteq> title g \<and> t \<in> set (map title (Games db))
                | None \<Rightarrow> False)
            then None
            else Some (Some (apply_update s g),
                       db\<lparr>Games := update_first (\<lambda>x. game_id x = i) (apply_update s g)
                                      (Games db)\<rparr>))
     }"

text \<open>
  \<open>Games.findByIdAndDelete(id)\<close>: the deleted document, or \<open>null\<close>; the outer \<open>None\<close> is
  the cast error on \<open>id\<close>.
\<close>

definition Games_findByIdAndDelete ::
  "mongoose \<Rightarrow> store \<Rightarrow> string \<Rightarrow> (game option \<times> store) option" where
  "Games_findByIdAndDelete M db gid =
     do {
       i \<leftarrow> castObjectId M gid;
       (case Games_findById db i of
          None \<Rightarrow> Some (None, db)
        | Some g \<Rightarrow> Some (Some g, db\<lparr>Games := remove_first (\<lambda>x. game_id x = i) (Games db)\<rparr>))
     }"

section \<open>The handlers of \<open>games.controller.ts\<close>\<close>

text \<open>
  A handler takes the library, the store and the parts of the request it reads, and
  gives the response; a handler that writes gives the store after it as well.
  \<open>createGame\<close> takes the \<open>_id\<close> that the constructor generates.
\<close>

definition createGame :: "mongoose \<Rightarrow> oid \<Rightarrow> store \<Rightarrow> json \<Rightarrow> response \<times> store" where
  "createGame M new_id db b =
     (case first_missing b createGame_requiredFields of
        Some field \<Rightarrow> ((400, Message (required_message field)), db)
      | None \<Rightarrow>
          (case Games_new M new_id (body_field b ''title'') (body_field b ''releaseYear'')
                  (body_field b ''platforms'') (body_field b ''genre'')
                  (body_field b ''description'') (body_field b ''developer'') of
             None \<Rightarrow> (internal_server_error, db)
           | Some newGame \<Rightarrow>
               (case Games_save M db newGame of
                  None \<Rightarrow> (internal_server_error, db)
                | Some db' \<Rightarrow> ((201, GameBody newGame), db'))))"

definition getAllGames :: "mongoose \<Rightarrow> store \<Rightarrow> string option \<Rightarrow> string option \<Rightarrow> response" where
  "getAllGames M db q_page q_limit =
     (let page = or_default (Number q_page) (Fin 1);
          limit = or_default (Number q_limit) (Fin 10)
      in if js_less page (Fin 1) \<or> js_less limit (Fin 1)
         then (400, Message ''Page and limit must be positive numbers'')
         else
           (let skip = js_mul (js_sub page (Fin 1)) limit;
                totalGames = length (Games db)
            in case find_skip_limit M (Games db) skip limit of
                 None \<Rightarrow> internal_server_error
               | Some found \<Rightarrow>
                   (200, GamesPage page limit totalGames
                           (map (populate_mainCharacters db) found))))"

definition getGameById :: "mongoose \<Rightarrow> store \<Rightarrow> string \<Rightarrow> response" where
  "getGameById M db gid =
     (if \<not> ObjectId_isValid M (JStr gid) then (400, Message ''Invalid GameID format'')
      else
        (case castObjectId M gid of
           None \<Rightarrow> internal_server_error
         | Some i \<Rightarrow>
             (case Games_findById db i of
                None \<Rightarrow> (404, Message ''GameID Not Found'')
              | Some g \<Rightarrow> (200, GameBody g))))"

definition deleteGameById :: "mongoose \<Rightarrow> store \<Rightarrow> string \<Rightarrow> response \<times> store" where
  "deleteGameById M db gid =
     (if \<not> ObjectId_isValid M (JStr gid) then ((400, Message ''Invalid GameID format''), db)
      else
        (case Games_findByIdAndDelete M db gid of
           None \<Rightarrow> (internal_server_error, db)
         | Some (None, db') \<Rightarrow> ((404, Message ''GameID Not Found''), db')
         | Some (Some findGame, db') \<Rightarrow> ((200, Message ''Game Deleted Correctly''), db')))"

definition updateGameById :: "mongoose \<Rightarrow> store \<Rightarrow> string \<Rightarrow> json \<Rightarrow> response \<times> store" where
  "updateGameById M db gid b =
     (if \<not> ObjectId_isValid M (JStr gid) then ((400, Message ''Invalid GameID format''), db)
      else
        (case first_missing b updateGameById_requiredFields of
           Some field \<Rightarrow> ((400, Message (required_message field)), db)
         | None \<Rightarrow>
             (case Games_findByIdAndUpdate M db gid
                     \<lparr>upd_title = body_field b ''title'',
                      upd_releaseYear = body_field b ''releaseYear'',
                      upd_platforms = body_field b ''platforms'',
                      upd_genre = body_field b ''genre'',
                      upd_description = body_field b ''description'',
                      upd_developer = body_field b ''developer'',
                      upd_mainCharacters = body_field b ''mainCharacters''\<rparr> of
                None \<Rightarrow> (internal_server_error, db)
              | Some (None, db') \<Rightarrow> ((404, Message ''GameID Not Found''), db')
              | Some (Some updatedGame, db') \<Rightarrow> ((200, GameBody updatedGame), db'))))"

text \<open>\<open>if (v) updateData.field = v\<close>: the property is set when the value is truthy.\<close>

definition if_truthy :: "json option \<Rightarrow> json option" where
  "if_truthy v = (if truthy v then v else None)"

definition updateGameByIdPatch :: "mongoose \<Rightarrow> store \<Rightarrow> string \<Rightarrow> json \<Rightarrow> response \<times> store" where
  "updateGameByIdPatch M db gid b =
     (if \<not> ObjectId_isValid M (JStr gid) then ((400, Message ''Invalid GameID format''), db)
      else
        (let updateData =
               \<lparr>upd_title = if_truthy (body_field b ''title''),
                upd_releaseYear = if_truthy (body_field b ''releaseYear''),
                upd_platforms = if_truthy (body_field b ''platforms''),
                upd_genre = if_truthy (body_field b ''genre''),
                upd_description = if_truthy (body_field b ''description''),
                upd_developer = if_truthy (body_field b ''developer''),
                upd_mainCharacters = if_truthy (body_field b ''mainCharacters'')\<rparr>
         in case Games_findByIdAndUpdate M db gid updateData of
              None \<Rightarrow> (internal_server_error, db)
            | Some (None, db') \<Rightarrow> ((404, Message ''GameID Not Found''), db')
            | Some (Some updatedGame, db') \<Rightarrow> ((200, GameBody updatedGame), db')))"

section \<open>The handlers of the characters controller\<close>

text \<open>
  \<open>games && !games.every((id) => ObjectId.isValid(id))\<close> inside the \<open>try\<close>: on a truthy
  value that is not an array the call of \<open>every\<close> throws (\<open>None\<close>); otherwise the
  result says whether the request is to be rejected.
\<close>

definition games_rejected :: "mongoose \<Rightarrow> json option \<Rightarrow> bool option" where
  "games_rejected M gs =
     (if \<not> truthy gs then Some False
      else
        (case gs of
           Some (JArr ids) \<Rightarrow> Some (\<not> list_all (ObjectId_isValid M) ids)
         | _ \<Rightarrow> None))"

definition createCharacter :: "mongoose \<Rightarrow> oid \<Rightarrow> store \<Rightarrow> json \<Rightarrow> response \<times> store" where
  "createCharacter M new_id db b =
     (case first_missing b createCharacter_requiredFields of
        Some field \<Rightarrow> ((400, Message (required_message field)), db)
      | None \<Rightarrow>
          (case games_rejected M (body_field b ''games'') of
             None \<Rightarrow> (internal_server_error, db)
           | Some True \<Rightarrow> ((400, Message ''Invalid game ID(s) in the 'games' field''), db)
           | Some False \<Rightarrow>
               (case Characters_new M new_id (body_field b ''name'')
                       (body_field b ''description'') (body_field b ''age'')
                       (body_field b ''nationality'') (body_field b ''height'')
                       (body_field b ''weight'') (body_field b ''occupations'')
                       (body_field b ''games'') of
                  None \<Rightarrow> (internal_server_error, db)
                | Some newCharacter \<Rightarrow>
                    (case Characters_save M db newCharacter of
                       None \<Rightarrow> (internal_server_error, db)
                     | Some db' \<Rightarrow>
                         ((201, CharacterBody newCharacter (populate_games db' newCharacter)),
                          db')))))"

definition getAllCharacters ::
  "mongoose \<Rightarrow> store \<Rightarrow> string option \<Rightarrow> string option \<Rightarrow> response" where
  "getAllCharacters M db q_page q_limit =
     (let page = or_default (Number q_page) (Fin 1);
          limit = or_default (Number q_limit) (Fin 10)
      in if js_less page (Fin 1) \<or> js_less limit (Fin 1)
         then (400, Message ''Page and limit must be positive numbers'')
         else
           (let skip = js_mul (js_sub page (Fin 1)) limit;
                totalCharacters = length (Characters db)
            in case find_skip_limit M (Characters db) skip limit of
                 None \<Rightarrow> internal_server_error
               | Some found \<Rightarrow>
                   (200, CharactersPage page limit totalCharacters
                           (map (populate_games_title db) found))))"

section \<open>A library instance and sample data\<close>

text \<open>
  An instance of the library record on which the handlers can be run: an identifier is
  valid when it is a string of 24 hexadecimal digits and is cast to lower case; a value
  is cast when it already has the JSON type of the path; the validators accept; a count
  that is not an integer is rejected.
\<close>

definition hex24 :: "string \<Rightarrow> bool" where
  "hex24 s = (length s = 24 \<and> list_all (is_digit_in 16) s)"

definition lower_hex :: "char \<Rightarrow> char" where
  "lower_hex c =
     (if 65 \<le> (of_char c :: nat) \<and> (of_char c :: nat) \<le> 70
      then char_of ((of_char c :: nat) + 32) else c)"

definition strict_oid :: "json \<Rightarrow> oid option" where
  "strict_oid j = (case j of JStr s \<Rightarrow> if hex24 s then Some (map lower_hex s) else None
                   | _ \<Rightarrow> None)"

definition strict_string :: "json \<Rightarrow> string option" where
  "strict_string j = (case j of JStr s \<Rightarrow> Some s | _ \<Rightarrow> None)"

fun those_opt :: "'a option list \<Rightarrow> 'a list option" where
  "those_opt [] = Some []"
| "those_opt (x # xs) =
     (case x of None \<Rightarrow> None
      | Some y \<Rightarrow> (case those_opt xs of None \<Rightarrow> None | Some ys \<Rightarrow> Some (y # ys)))"

definition strict_mongoose :: mongoose where
  "strict_mongoose =
     \<lparr>ObjectId_isValid = (\<lambda>j. strict_oid j \<noteq> None),
      castObjectId = (\<lambda>s. strict_oid (JStr s)),
      castString = strict_string,
      castNumber = (\<lambda>j. case j of JNum (Fin r) \<Rightarrow> Some (Fin r) | _ \<Rightarrow> None),
      castStringArray =
        (\<lambda>j. case j of JArr xs \<Rightarrow> those_opt (map strict_string xs) | _ \<Rightarrow> None),
      castObjectIdArray =
        (\<lambda>j. case j of JArr xs \<Rightarrow> those_opt (map strict_oid xs) | _ \<Rightarrow> None),
      validateGame = (\<lambda>g. True),
      validateCharacter = (\<lambda>c. True),
      cursorCount = (\<lambda>x. None)\<rparr>"

definition demo_game :: "oid \<Rightarrow> string \<Rightarrow> game" where
  "demo_game i t =
     \<lparr>game_id = i, title = t, releaseYear = Fin 1998, platforms = [''PlayStation''],
      genre = ''Survival horror'', game.description = ''Raccoon City'',
      mainCharacters = [], enemies = [], locations = [], developer = ''Capcom''\<rparr>"

definition demo_store :: store where
  "demo_store =
     \<lparr>Games =
        [demo_game ''65f0a1b2c3d4e5f600000001'' ''Resident Evil'',
         demo_game ''65f0a1b2c3d4e5f600000002'' ''Resident Evil 2'',
         demo_game ''65f0a1b2c3d4e5f600000003'' ''Resident Evil 3'',
         demo_game ''65f0a1b2c3d4e5f600000004'' ''Code Veronica'',
         demo_game ''65f0a1b2c3d4e5f600000005'' ''Resident Evil 4''],
      Characters = []\<rparr>"

lemmas library_defs =
  strict_mongoose_def strict_oid_def strict_string_def hex24_def lower_hex_def
  is_digit_in_def digit_of_def

section \<open>The required-field check\<close>

lemma first_missing_split:
  "fs = pre @ f # post \<Longrightarrow> \<forall>g\<in>set pre. truthy (body_field b g) \<Longrightarrow> \<not> truthy (body_field b f)
   \<Longrightarrow> first_missing b fs = Some f"
  by (induction pre arbitrary: fs) auto

lemma first_missing_None:
  "first_missing b fs = None \<longleftrightarrow> (\<forall>f\<in>set fs. truthy (body_field b f))"
  by (induction fs) auto

lemma first_missing_mem:
  "first_missing b fs = Some f \<Longrightarrow> f \<in> set fs \<and> \<not> truthy (body_field b f)"
  by (induction fs) (auto split: if_splits)

lemma falsy_values:
  "\<not> truthy v \<longleftrightarrow>
     v \<in> {None, Some JNull, Some (JBool False), Some (JNum (Fin 0)), Some (JNum NaN),
          Some (JStr [])}"
  by (cases v rule: truthy.cases) (auto elim: num_truthy.elims)

lemma required_message_inj: "required_message f = required_message f' \<longleftrightarrow> f = f'"
  by (simp add: required_message_def)

text \<open>
  C1. A create request for a game or a character in which a required field is missing
  (falsy) is answered 400 with the message \<open>The field "<name>" is required\<close> for the
  first such field in the declared order, whatever the later fields are, and the store is
  left as it was.
\<close>

theorem create_rejects_first_missing_field:
  \<open>(createGame_requiredFields = pre @ f # post \<and> (\<forall>g\<in>set pre. truthy (body_field b g))
      \<and> \<not> truthy (body_field b f)
    \<longrightarrow> createGame M new_id db b =
          ((400, Message (''The field "'' @ f @ ''" is required'')), db))
   \<and> (createCharacter_requiredFields = pre' @ f' # post'
      \<and> (\<forall>g\<in>set pre'. truthy (body_field b' g)) \<and> \<not> truthy (body_field b' f')
    \<longrightarrow> createCharacter M new_id' db' b' =
          ((400, Message (''The field "'' @ f' @ ''" is required'')), db'))
   \<and> createGame_requiredFields =
       [''title'', ''releaseYear'', ''platforms'', ''genre'', ''description'', ''developer'']
   \<and> createCharacter_requiredFields =
       [''name'', ''description'', ''age'', ''nationality'', ''height'', ''weight'',
        ''occupations'', ''games'']\<close>
  using first_missing_split[of createGame_requiredFields pre f post b]
    first_missing_split[of createCharacter_requiredFields pre' f' post' b']
  by (auto simp: createGame_def createCharacter_def required_message_def
      createGame_requiredFields_def createCharacter_requiredFields_def)

theorem create_rejects_first_missing_field_witness:
  \<open>createGame strict_mongoose ''65f0a1b2c3d4e5f600000009'' demo_store
      (JObj [(''title'', JStr ''Resident Evil 5''), (''releaseYear'', JNum (Fin 2009)),
             (''platforms'', JArr [JStr ''PlayStation 3'']), (''description'', JStr ''Kijuju'')])
    = ((400, Message ''The field "genre" is required''), demo_store)
   \<and> createCharacter strict_mongoose ''65f0a1b2c3d4e5f60000000a'' demo_store
      (JObj [(''name'', JStr ''Jill Valentine''), (''description'', JStr ''S.T.A.R.S.''),
             (''age'', JNum (Fin 0)), (''games'', JArr [])])
    = ((400, Message ''The field "age" is required''), demo_store)\<close>
  using create_rejects_first_missing_field
    [where pre = "[''title'', ''releaseYear'', ''platforms'']" and f = "''genre''"
       and post = "[''description'', ''developer'']"
       and b = "JObj [(''title'', JStr ''Resident Evil 5''), (''releaseYear'', JNum (Fin 2009)),
             (''platforms'', JArr [JStr ''PlayStation 3'']), (''description'', JStr ''Kijuju'')]"
       and pre' = "[''name'', ''description'']" and f' = "''age''"
       and post' = "[''nationality'', ''height'', ''weight'', ''occupations'', ''games'']"
       and b' = "JObj [(''name'', JStr ''Jill Valentine''), (''description'', JStr ''S.T.A.R.S.''),
             (''age'', JNum (Fin 0)), (''games'', JArr [])]"
       and M = strict_mongoose and new_id = "''65f0a1b2c3d4e5f600000009''"
       and new_id' = "''65f0a1b2c3d4e5f60000000a''" and db = demo_store and db' = demo_store]
  by (simp add: createGame_requiredFields_def createCharacter_requiredFields_def)

lemma createGame_required_iff:
  "createGame M new_id db b = ((400, Message (required_message f)), db')
     \<longleftrightarrow> first_missing b createGame_requiredFields = Some f \<and> db' = db"
  by (auto simp: createGame_def internal_server_error_def required_message_inj
      split: option.splits)

lemma createCharacter_required_iff:
  "createCharacter M new_id db b = ((400, Message (required_message f)), db')
     \<longleftrightarrow> first_missing b createCharacter_requiredFields = Some f \<and> db' = db"
  by (auto simp: createCharacter_def internal_server_error_def required_message_inj
      required_message_def split: option.splits bool.splits)

lemma first_missing_ex:
  "(\<exists>f. first_missing b fs = Some f) \<longleftrightarrow> (\<exists>f\<in>set fs. \<not> truthy (body_field b f))"
  using first_missing_None[of b fs] by (metis not_Some_eq)

text \<open>
  C2, as amended. A create request is rejected for a missing field exactly when one of
  the required fields is absent or has one of the falsy values \<open>null\<close>, \<open>false\<close>, \<open>0\<close>,
  \<open>NaN\<close> or the empty string. A body whose \<open>releaseYear\<close> is \<open>0\<close> is rejected for it; an
  empty list is truthy, so a body whose \<open>platforms\<close> is the empty list is never rejected
  for \<open>platforms\<close>.
\<close>

theorem required_field_missing_iff_falsy:
  \<open>((\<exists>f. createGame M new_id db b =
            ((400, Message (''The field "'' @ f @ ''" is required'')), db))
      \<longleftrightarrow> (\<exists>f\<in>set createGame_requiredFields.
             body_field b f \<in> {None, Some JNull, Some (JBool False), Some (JNum (Fin 0)),
                               Some (JNum NaN), Some (JStr [])}))
   \<and> ((\<exists>f. createCharacter M new_id db b =
            ((400, Message (''The field "'' @ f @ ''" is required'')), db))
      \<longleftrightarrow> (\<exists>f\<in>set createCharacter_requiredFields.
             body_field b f \<in> {None, Some JNull, Some (JBool False), Some (JNum (Fin 0)),
                               Some (JNum NaN), Some (JStr [])}))
   \<and> (truthy (body_field b ''title'') \<and> body_field b ''releaseYear'' = Some (JNum (Fin 0))
      \<longrightarrow> createGame M new_id db b =
            ((400, Message ''The field "releaseYear" is required''), db))
   \<and> (body_field b ''platforms'' = Some (JArr [])
      \<longrightarrow> fst (createGame M new_id db b)
            \<noteq> (400, Message ''The field "platforms" is required''))\<close>
proof -
  have msg: "\<And>f. ''The field \"'' @ f @ ''\" is required'' = required_message f"
    by (simp add: required_message_def)
  have g: "(\<exists>f. createGame M new_id db b = ((400, Message (required_message f)), db))
      \<longleftrightarrow> (\<exists>f\<in>set createGame_requiredFields. \<not> truthy (body_field b f))"
    by (simp add: createGame_required_iff first_missing_ex)
  have c: "(\<exists>f. createCharacter M new_id db b = ((400, Message (required_message f)), db))
      \<longleftrightarrow> (\<exists>f\<in>set createCharacter_requiredFields. \<not> truthy (body_field b f))"
    by (simp add: createCharacter_required_iff first_missing_ex)
  have y: "truthy (body_field b ''title'') \<and> body_field b ''releaseYear'' = Some (JNum (Fin 0))
      \<longrightarrow> createGame M new_id db b = ((400, Message (required_message ''releaseYear'')), db)"
    by (simp add: createGame_required_iff createGame_requiredFields_def)
  have p: "body_field b ''platforms'' = Some (JArr [])
      \<longrightarrow> fst (createGame M new_id db b) \<noteq> (400, Message (required_message ''platforms''))"
  proof
    assume a: "body_field b ''platforms'' = Some (JArr [])"
    show "fst (createGame M new_id db b) \<noteq> (400, Message (required_message ''platforms''))"
    proof
      assume "fst (createGame M new_id db b) = (400, Message (required_message ''platforms''))"
      then have "createGame M new_id db b =
          ((400, Message (required_message ''platforms'')), snd (createGame M new_id db b))"
        by (metis prod.collapse)
      then have "first_missing b createGame_requiredFields = Some ''platforms''"
        by (simp add: createGame_required_iff)
      with a show False using first_missing_mem by fastforce
    qed
  qed
  have y': \<open>truthy (body_field b ''title'') \<and> body_field b ''releaseYear'' = Some (JNum (Fin 0))
      \<longrightarrow> createGame M new_id db b =
            ((400, Message ''The field "releaseYear" is required''), db)\<close>
    using y by (simp add: required_message_def)
  have p': \<open>body_field b ''platforms'' = Some (JArr [])
      \<longrightarrow> fst (createGame M new_id db b)
            \<noteq> (400, Message ''The field "platforms" is required'')\<close>
    using p by (simp add: required_message_def)
  show ?thesis
    unfolding msg falsy_values[symmetric] using g c y' p' by blast
qed

theorem required_field_missing_iff_falsy_witness:
  \<open>createGame strict_mongoose ''65f0a1b2c3d4e5f600000009'' demo_store
      (JObj [(''title'', JStr ''Resident Evil 5''), (''releaseYear'', JNum (Fin 0)),
             (''platforms'', JArr [])])
    = ((400, Message ''The field "releaseYear" is required''), demo_store)
   \<and> fst (createGame strict_mongoose ''65f0a1b2c3d4e5f600000009'' demo_store
      (JObj [(''title'', JStr ''Resident Evil 5''), (''releaseYear'', JNum (Fin 0)),
             (''platforms'', JArr [])]))
    \<noteq> (400, Message ''The field "platforms" is required'')\<close>
  using required_field_missing_iff_falsy
    [where b = "JObj [(''title'', JStr ''Resident Evil 5''), (''releaseYear'', JNum (Fin 0)),
             (''platforms'', JArr [])]"
       and M = strict_mongoose and new_id = "''65f0a1b2c3d4e5f600000009''"
       and db = demo_store]
  by simp

text \<open>
  Counterexample to C2 in the specification's wording, where an empty list counts as
  missing: a game body whose \<open>platforms\<close> is the empty list, with the other five
  fields given, is not rejected but created.
\<close>

theorem empty_platforms_accepted:
  \<open>fst (createGame strict_mongoose ''65f0a1b2c3d4e5f600000009'' demo_store
      (JObj [(''title'', JStr ''Resident Evil 5''), (''releaseYear'', JNum (Fin 2009)),
             (''platforms'', JArr []), (''genre'', JStr ''Action''),
             (''description'', JStr ''Kijuju''), (''developer'', JStr ''Capcom'')]))
    = (201, GameBody \<lparr>game_id = ''65f0a1b2c3d4e5f600000009'', title = ''Resident Evil 5'',
         releaseYear = Fin 2009, platforms = [], genre = ''Action'',
         game.description = ''Kijuju'', mainCharacters = [], enemies = [], locations = [],
         developer = ''Capcom''\<rparr>)\<close>
  by (simp add: createGame_def createGame_requiredFields_def Games_new_def Games_save_def
      cast_path_def cast_array_def strict_mongoose_def strict_string_def demo_store_def
      demo_game_def)

section \<open>Pagination\<close>

lemma floor_log2_nonneg: "0 \<le> floor_log2 n"
  by (induction n rule: floor_log2.induct) (simp add: floor_log2.simps)

lemma floor_log2_le: "0 < n \<Longrightarrow> 2 ^ nat (floor_log2 n) \<le> n"
proof (induction n rule: floor_log2.induct)
  case (1 n)
  show ?case
  proof (cases "n < 2")
    case True
    with "1.prems" show ?thesis by (simp add: floor_log2.simps)
  next
    case False
    then have "0 < n div 2" by simp
    with "1.IH" False have "2 ^ nat (floor_log2 (n div 2)) \<le> n div 2" by simp
    then have "2 * 2 ^ nat (floor_log2 (n div 2)) \<le> n" by simp
    moreover have "nat (1 + floor_log2 (n div 2)) = Suc (nat (floor_log2 (n div 2)))"
      using floor_log2_nonneg[of "n div 2"] by simp
    ultimately show ?thesis using False by (simp add: floor_log2.simps[of n])
  qed
qed

lemma round_half_even_of_int: "round_half_even (of_int k) = k"
  by (simp add: round_half_even_def)

lemma to_double_0 [simp]: "to_double 0 = Fin 0"
  by (simp add: to_double_def)

lemma to_double_of_nat:
  assumes "n < 2 ^ 53"
  shows "to_double (of_nat n) = Fin (of_nat n)"
proof (cases "n = 0")
  case True
  then show ?thesis by simp
next
  case False
  then have pos: "0 < int n" by simp
  define e where "e = nat (floor_log2 (int n))"
  have ei: "floor_log2 (int n) = int e"
    unfolding e_def using floor_log2_nonneg[of "int n"] by simp
  have "(2::int) ^ e \<le> int n" unfolding e_def using pos by (rule floor_log2_le)
  moreover have "int n < 2 ^ 53" using assms by (simp flip: of_nat_less_iff)
  ultimately have "(2::int) ^ e < 2 ^ 53" by linarith
  then have e: "e < 53" by (rule power_less_imp_less_exp[rotated]) simp
  have ex: "exponent_of (of_nat n) = int e"
    using False by (simp add: exponent_of_def ei)
  have q: "pow2 (max (int e) (- 1022) - 52) = 1 / 2 ^ (52 - e)"
    using e by (cases "e = 52") (simp_all add: pow2_def nat_diff_distrib')
  have "(of_nat n :: rat) / (1 / 2 ^ (52 - e)) = of_int (int n * 2 ^ (52 - e))"
    by simp
  then have r: "round_half_even (of_nat n / (1 / 2 ^ (52 - e))) = int n * 2 ^ (52 - e)"
    by (simp only: round_half_even_of_int)
  have lt: "\<not> 1024 \<le> exponent_of (of_nat n)"
    unfolding ex using e by simp
  have "round_pos (of_nat n) = Fin (of_nat n)"
    unfolding round_pos_def ex q Let_def r using lt by simp
  with False show ?thesis by (simp add: to_double_def)
qed

lemma StringToNumber_samples:
  "StringToNumber ''0'' = Fin 0"
  "StringToNumber [] = Fin 0"
  "StringToNumber ''abc'' = NaN"
  "StringToNumber ''-1'' = Fin (- 1)"
  "StringToNumber ''0.5'' = Fin (1 / 2)"
  "StringToNumber ''1'' = Fin 1"
  "StringToNumber ''2'' = Fin 2"
  "StringToNumber ''3'' = Fin 3"
  "StringToNumber ''10'' = Fin 10"
  by code_simp+


text \<open>
  C3. The specification has \<open>page=0\<close> and \<open>limit=0\<close> answered 400, as the handlers' own
  test \<open>page < 1 || limit < 1\<close> and message intend. The handlers do not do so:
  \<open>Number("0") || 1\<close> is \<open>1\<close> and \<open>Number("0") || 10\<close> is \<open>10\<close>, so on any store the
  request is answered 200 with the first page, as if the parameter had been left out.
\<close>

theorem list_zero_not_rejected:
  \<open>getAllGames M db (Some ''0'') None =
      (200, GamesPage (Fin 1) (Fin 10) (length (Games db))
              (map (populate_mainCharacters db) (take 10 (Games db))))
   \<and> getAllCharacters M db None (Some ''0'') =
      (200, CharactersPage (Fin 1) (Fin 10) (length (Characters db))
              (map (populate_games_title db) (take 10 (Characters db))))\<close>
  by (simp add: getAllGames_def getAllCharacters_def StringToNumber_samples or_default_def
      find_skip_limit_def count_of_def)

lemma count_of_nat: "n \<le> 2 ^ 53 - 1 \<Longrightarrow> count_of M (Fin (of_nat n)) = Some n"
proof -
  assume "n \<le> 2 ^ 53 - 1"
  then have "(of_nat n :: rat) \<le> of_nat (2 ^ 53 - 1)" by (simp only: of_nat_le_iff)
  then have "(of_nat n :: rat) \<le> 2 ^ 53 - 1" by simp
  then show ?thesis by (simp add: count_of_def)
qed

lemma find_skip_limit_nat:
  "s \<le> 2 ^ 53 - 1 \<Longrightarrow> l \<le> 2 ^ 53 - 1 \<Longrightarrow> 1 \<le> l \<Longrightarrow>
   find_skip_limit M docs (Fin (of_nat s)) (Fin (of_nat l)) = Some (take l (drop s docs))"
  by (simp add: find_skip_limit_def count_of_nat)

lemma skip_nat:
  assumes "1 \<le> P" and "1 \<le> L" and "(P - 1) * L \<le> 2 ^ 53 - 1"
  shows "js_mul (js_sub (Fin (of_nat P)) (Fin 1)) (Fin (of_nat L)) = Fin (of_nat ((P - 1) * L))"
proof -
  have "P - 1 \<le> (P - 1) * L" using assms(2) by simp
  also note assms(3)
  also have "(2::nat) ^ 53 - 1 < 2 ^ 53" by simp
  finally have p: "P - 1 < 2 ^ 53" .
  note assms(3)
  also have "(2::nat) ^ 53 - 1 < 2 ^ 53" by simp
  finally have s: "(P - 1) * L < 2 ^ 53" .
  have "js_sub (Fin (of_nat P)) (Fin 1) = to_double (of_nat (P - 1))"
    using assms(1) by (simp add: of_nat_diff)
  also have "\<dots> = Fin (of_nat (P - 1))" using p by (rule to_double_of_nat)
  finally have "js_mul (js_sub (Fin (of_nat P)) (Fin 1)) (Fin (of_nat L))
      = to_double (of_nat ((P - 1) * L))"
    by simp
  also have "\<dots> = Fin (of_nat ((P - 1) * L))" using s by (rule to_double_of_nat)
  finally show ?thesis .
qed

lemma page_length:
  "1 \<le> P \<Longrightarrow> int (length (take L (drop ((P - 1) * L) xs)))
     = min (int L) (max 0 (int (length xs) - (int P - 1) * int L))"
proof -
  assume P: "1 \<le> P"
  define s where "s = (P - 1) * L"
  have "int s = (int P - 1) * int L"
    using P by (simp add: s_def of_nat_diff)
  moreover have "int (length (take L (drop s xs))) = min (int L) (max 0 (int (length xs) - int s))"
    by (simp add: min_def max_def) linarith
  ultimately show ?thesis by (simp only: s_def)
qed

lemma getAllGames_page:
  assumes "or_default (Number q_page) (Fin 1) = Fin (of_nat P)"
    and "or_default (Number q_limit) (Fin 10) = Fin (of_nat L)"
    and "1 \<le> P" and "1 \<le> L" and "(P - 1) * L \<le> 2 ^ 53 - 1" and "L \<le> 2 ^ 53 - 1"
  shows "getAllGames M db q_page q_limit =
           (200, GamesPage (Fin (of_nat P)) (Fin (of_nat L)) (length (Games db))
                   (map (populate_mainCharacters db) (take L (drop ((P - 1) * L) (Games db)))))"
proof -
  have ok: "\<not> js_less (Fin (of_nat P)) (Fin 1)" "\<not> js_less (Fin (of_nat L)) (Fin 1)"
    using assms(3,4) by simp_all
  have g: "find_skip_limit M (Games db) (Fin (of_nat ((P - 1) * L))) (Fin (of_nat L))
             = Some (take L (drop ((P - 1) * L) (Games db)))"
    using assms(5,6,4) by (rule find_skip_limit_nat)
  have sk: "js_mul (js_sub (Fin (of_nat P)) (Fin 1)) (Fin (of_nat L)) = Fin (of_nat ((P - 1) * L))"
    using assms(3,4,5) by (rule skip_nat)
  show ?thesis
    unfolding getAllGames_def assms(1,2) Let_def sk g using ok by simp
qed

lemma getAllCharacters_page:
  assumes "or_default (Number q_page) (Fin 1) = Fin (of_nat P)"
    and "or_default (Number q_limit) (Fin 10) = Fin (of_nat L)"
    and "1 \<le> P" and "1 \<le> L" and "(P - 1) * L \<le> 2 ^ 53 - 1" and "L \<le> 2 ^ 53 - 1"
  shows "getAllCharacters M db q_page q_limit =
           (200, CharactersPage (Fin (of_nat P)) (Fin (of_nat L)) (length (Characters db))
                   (map (populate_games_title db)
                      (take L (drop ((P - 1) * L) (Characters db)))))"
proof -
  have ok: "\<not> js_less (Fin (of_nat P)) (Fin 1)" "\<not> js_less (Fin (of_nat L)) (Fin 1)"
    using assms(3,4) by simp_all
  have c: "find_skip_limit M (Characters db) (Fin (of_nat ((P - 1) * L))) (Fin (of_nat L))
             = Some (take L (drop ((P - 1) * L) (Characters db)))"
    using assms(5,6,4) by (rule find_skip_limit_nat)
  have sk: "js_mul (js_sub (Fin (of_nat P)) (Fin 1)) (Fin (of_nat L)) = Fin (of_nat ((P - 1) * L))"
    using assms(3,4,5) by (rule skip_nat)
  show ?thesis
    unfolding getAllCharacters_def assms(1,2) Let_def sk c using ok by simp
qed

text \<open>
  C4. When the page and limit parameters parse to integers \<open>P \<ge> 1\<close> and \<open>L \<ge> 1\<close>
  (with \<open>L\<close> and the offset \<open>(P - 1) * L\<close> below \<open>2^53\<close>, where the arithmetic of
  JavaScript numbers is exact), the response is 200, its records are the \<open>L\<close> documents
  of the collection in storage order from offset \<open>(P - 1) * L\<close>, as many as there are,
  that is \<open>min(L, max(0, N - (P - 1) * L))\<close> of them, and its total is the size \<open>N\<close> of
  the collection.
\<close>

theorem list_page_contents:
  assumes "Number q_page = Fin (of_nat P)" and "Number q_limit = Fin (of_nat L)"
    and "1 \<le> P" and "1 \<le> L" and "(P - 1) * L \<le> 2 ^ 53 - 1" and "L \<le> 2 ^ 53 - 1"
  shows "getAllGames M db q_page q_limit =
           (200, GamesPage (Fin (of_nat P)) (Fin (of_nat L)) (length (Games db))
                   (map (populate_mainCharacters db) (take L (drop ((P - 1) * L) (Games db)))))
       \<and> int (length (map (populate_mainCharacters db) (take L (drop ((P - 1) * L) (Games db)))))
           = min (int L) (max 0 (int (length (Games db)) - (int P - 1) * int L))
       \<and> getAllCharacters M db q_page q_limit =
           (200, CharactersPage (Fin (of_nat P)) (Fin (of_nat L)) (length (Characters db))
                   (map (populate_games_title db)
                      (take L (drop ((P - 1) * L) (Characters db)))))
       \<and> int (length (map (populate_games_title db)
                         (take L (drop ((P - 1) * L) (Characters db)))))
           = min (int L) (max 0 (int (length (Characters db)) - (int P - 1) * int L))"
proof -
  have pg: "or_default (Number q_page) (Fin 1) = Fin (of_nat P)"
    and lm: "or_default (Number q_limit) (Fin 10) = Fin (of_nat L)"
    using assms by (simp_all add: or_default_def)
  note 1 = getAllGames_page[OF pg lm assms(3-6), of M db]
  note 2 = getAllCharacters_page[OF pg lm assms(3-6), of M db]
  show ?thesis
    using 1 2 page_length[OF assms(3), of L "Games db"]
      page_length[OF assms(3), of L "Characters db"]
    by (simp only: length_map simp_thms)
qed

theorem list_page_contents_witness:
  "getAllGames strict_mongoose demo_store (Some ''2'') (Some ''3'') =
     (200, GamesPage (Fin 2) (Fin 3) 5
        [(demo_game ''65f0a1b2c3d4e5f600000004'' ''Code Veronica'', []),
         (demo_game ''65f0a1b2c3d4e5f600000005'' ''Resident Evil 4'', [])])
   \<and> getAllCharacters strict_mongoose demo_store (Some ''2'') (Some ''3'') =
     (200, CharactersPage (Fin 2) (Fin 3) 0 [])"
  using list_page_contents[where q_page = "Some ''2''" and q_limit = "Some ''3''" and P = 2 and L = 3
      and M = strict_mongoose and db = demo_store]
  by (simp add: StringToNumber_samples demo_store_def populate_mainCharacters_def demo_game_def List.map_filter_simps)







section \<open>Updates\<close>

lemma find_update_first:
  "find P xs = Some x \<Longrightarrow> P y \<Longrightarrow> find P (update_first P y xs) = Some y"
  by (induction xs) (auto split: if_splits)

lemma update_first_same: "find P xs = Some x \<Longrightarrow> update_first P x xs = xs"
  by (induction xs) (auto split: if_splits)

lemma Games_findById_id: "Games_findById db i = Some g \<Longrightarrow> game_id g = i"
  by (auto simp: Games_findById_def find_Some_iff)

lemma apply_update_frame:
  "game_id (apply_update s g) = game_id g"
  "enemies (apply_update s g) = enemies g"
  "locations (apply_update s g) = locations g"
  "set_title s = None \<Longrightarrow> title (apply_update s g) = title g"
  "set_releaseYear s = None \<Longrightarrow> releaseYear (apply_update s g) = releaseYear g"
  "set_platforms s = None \<Longrightarrow> platforms (apply_update s g) = platforms g"
  "set_genre s = None \<Longrightarrow> genre (apply_update s g) = genre g"
  "set_description s = None \<Longrightarrow> game.description (apply_update s g) = game.description g"
  "set_developer s = None \<Longrightarrow> developer (apply_update s g) = developer g"
  "set_mainCharacters s = None \<Longrightarrow> mainCharacters (apply_update s g) = mainCharacters g"
  by (simp_all add: apply_update_def)

lemma cast_update_absent:
  assumes "cast_update M u = Some s"
  shows "upd_title u = None \<Longrightarrow> set_title s = None"
    "upd_releaseYear u = None \<Longrightarrow> set_releaseYear s = None"
    "upd_platforms u = None \<Longrightarrow> set_platforms s = None"
    "upd_genre u = None \<Longrightarrow> set_genre s = None"
    "upd_description u = None \<Longrightarrow> set_description s = None"
    "upd_developer u = None \<Longrightarrow> set_developer s = None"
    "upd_mainCharacters u = None \<Longrightarrow> set_mainCharacters s = None"
  using assms
  by (auto simp: cast_update_def cast_set_def split: Option.bind_splits)

lemma patch_unfold:
  assumes "ObjectId_isValid M (JStr gid)" and "castObjectId M gid = Some i"
    and "Games_findById db i = Some g"
    and "u = \<lparr>upd_title = if_truthy (body_field b ''title''),
                upd_releaseYear = if_truthy (body_field b ''releaseYear''),
                upd_platforms = if_truthy (body_field b ''platforms''),
                upd_genre = if_truthy (body_field b ''genre''),
                upd_description = if_truthy (body_field b ''description''),
                upd_developer = if_truthy (body_field b ''developer''),
                upd_mainCharacters = if_truthy (body_field b ''mainCharacters'')\<rparr>"
  shows "updateGameByIdPatch M db gid b =
     (case cast_update M u of
        None \<Rightarrow> (internal_server_error, db)
      | Some s \<Rightarrow>
          if (case set_title s of
                Some t \<Rightarrow> t \<noteq> title g \<and> t \<in> set (map title (Games db))
              | None \<Rightarrow> False)
          then (internal_server_error, db)
          else ((200, GameBody (apply_update s g)),
                db\<lparr>Games := update_first (\<lambda>x. game_id x = i) (apply_update s g) (Games db)\<rparr>))"
  using assms
  by (simp add: updateGameByIdPatch_def Games_findByIdAndUpdate_def split: option.splits)

lemma store_same:
  "Games_findById db i = Some g \<Longrightarrow> db\<lparr>Games := update_first (\<lambda>x. game_id x = i) g (Games db)\<rparr> = db"
  by (simp add: Games_findById_def update_first_same)

lemma findById_updated:
  "Games_findById db i = Some g \<Longrightarrow> game_id g' = i \<Longrightarrow>
   Games_findById (db\<lparr>Games := update_first (\<lambda>x. game_id x = i) g' (Games db)\<rparr>) i = Some g'"
  by (simp add: Games_findById_def find_update_first)

lemma apply_update_empty:
  "apply_update \<lparr>set_title = None, set_releaseYear = None, set_platforms = None, set_genre = None,
             set_description = None, set_developer = None, set_mainCharacters = None\<rparr> g = g"
  by (simp add: apply_update_def)

lemma cast_update_empty:
  "cast_update M \<lparr>upd_title = None, upd_releaseYear = None, upd_platforms = None,
      upd_genre = None, upd_description = None, upd_developer = None,
      upd_mainCharacters = None\<rparr>
   = Some \<lparr>set_title = None, set_releaseYear = None, set_platforms = None, set_genre = None,
             set_description = None, set_developer = None, set_mainCharacters = None\<rparr>"
  by (simp add: cast_update_def cast_set_def)

text \<open>
  C5. A PATCH on a valid identifier of a stored game leaves the game in its place in the
  collection and keeps every field whose value in the body is absent or falsy; \<open>_id\<close>,
  \<open>enemies\<close> and \<open>locations\<close> are never changed. The response is 200 with the stored
  game, or 500 with the store as it was. When none of the seven fields is truthy the
  response is 200 with the game and the store unchanged.
\<close>

theorem patch_keeps_absent_and_falsy_fields:
  assumes "ObjectId_isValid M (JStr gid)" and "castObjectId M gid = Some i"
    and "Games_findById db i = Some g"
  shows "\<exists>g'. Games_findById (snd (updateGameByIdPatch M db gid b)) i = Some g'
      \<and> snd (updateGameByIdPatch M db gid b)
          = db\<lparr>Games := update_first (\<lambda>x. game_id x = i) g' (Games db)\<rparr>
      \<and> (fst (updateGameByIdPatch M db gid b) = (200, GameBody g')
          \<or> updateGameByIdPatch M db gid b = (internal_server_error, db) \<and> g' = g)
      \<and> game_id g' = game_id g \<and> enemies g' = enemies g \<and> locations g' = locations g
      \<and> (\<not> truthy (body_field b ''title'') \<longrightarrow> title g' = title g)
      \<and> (\<not> truthy (body_field b ''releaseYear'') \<longrightarrow> releaseYear g' = releaseYear g)
      \<and> (\<not> truthy (body_field b ''platforms'') \<longrightarrow> platforms g' = platforms g)
      \<and> (\<not> truthy (body_field b ''genre'') \<longrightarrow> genre g' = genre g)
      \<and> (\<not> truthy (body_field b ''description'') \<longrightarrow> game.description g' = game.description g)
      \<and> (\<not> truthy (body_field b ''developer'') \<longrightarrow> developer g' = developer g)
      \<and> (\<not> truthy (body_field b ''mainCharacters'') \<longrightarrow> mainCharacters g' = mainCharacters g)
      \<and> ((\<forall>f\<in>set [''title'', ''releaseYear'', ''platforms'', ''genre'', ''description'',
                     ''developer'', ''mainCharacters'']. \<not> truthy (body_field b f))
          \<longrightarrow> updateGameByIdPatch M db gid b = ((200, GameBody g), db))"
proof -
  define u where "u = \<lparr>upd_title = if_truthy (body_field b ''title''),
                upd_releaseYear = if_truthy (body_field b ''releaseYear''),
                upd_platforms = if_truthy (body_field b ''platforms''),
                upd_genre = if_truthy (body_field b ''genre''),
                upd_description = if_truthy (body_field b ''description''),
                upd_developer = if_truthy (body_field b ''developer''),
                upd_mainCharacters = if_truthy (body_field b ''mainCharacters'')\<rparr>"
  note unfold = patch_unfold[OF assms u_def]
  have noop: "updateGameByIdPatch M db gid b = ((200, GameBody g), db)"
    if "\<forall>f\<in>set [''title'', ''releaseYear'', ''platforms'', ''genre'', ''description'',
                     ''developer'', ''mainCharacters'']. \<not> truthy (body_field b f)"
  proof -
    from that have "u = \<lparr>upd_title = None, upd_releaseYear = None, upd_platforms = None,
      upd_genre = None, upd_description = None, upd_developer = None,
      upd_mainCharacters = None\<rparr>"
      by (simp add: u_def if_truthy_def)
    then show ?thesis
      unfolding unfold by (simp add: cast_update_empty apply_update_empty store_same[OF assms(3)])
  qed
  have "updateGameByIdPatch M db gid b = (internal_server_error, db)
      \<or> (\<exists>s. cast_update M u = Some s
             \<and> updateGameByIdPatch M db gid b =
                 ((200, GameBody (apply_update s g)),
                  db\<lparr>Games := update_first (\<lambda>x. game_id x = i) (apply_update s g)
                                 (Games db)\<rparr>))"
  proof (cases "cast_update M u")
    case None
    then show ?thesis unfolding unfold by simp
  next
    case (Some s)
    show ?thesis
    proof (cases "case set_title s of
                    Some t \<Rightarrow> t \<noteq> title g \<and> t \<in> set (map title (Games db))
                  | None \<Rightarrow> False")
      case True
      with Some show ?thesis unfolding unfold by simp
    next
      case False
      with Some show ?thesis unfolding unfold by simp
    qed
  qed
  then consider
    (failed) "updateGameByIdPatch M db gid b = (internal_server_error, db)" |
    (updated) s where "cast_update M u = Some s"
      and "updateGameByIdPatch M db gid b =
             ((200, GameBody (apply_update s g)),
              db\<lparr>Games := update_first (\<lambda>x. game_id x = i) (apply_update s g) (Games db)\<rparr>)"
    by blast
  then show ?thesis
  proof cases
    case failed
    from noop have "(\<forall>f\<in>set [''title'', ''releaseYear'', ''platforms'', ''genre'', ''description'',
                     ''developer'', ''mainCharacters'']. \<not> truthy (body_field b f))
          \<longrightarrow> updateGameByIdPatch M db gid b = ((200, GameBody g), db)"
      by blast
    then show ?thesis
      by (intro exI[of _ g]) (simp add: failed assms(3) store_same[OF assms(3)])
  next
    case updated
    let ?g = "apply_update s g"
    have id: "game_id ?g = i"
      using Games_findById_id[OF assms(3)] by (simp add: apply_update_frame)
    have found: "Games_findById (snd (updateGameByIdPatch M db gid b)) i = Some ?g"
      using findById_updated[OF assms(3) id] by (simp add: updated(2))
    have fields:
      "\<not> truthy (body_field b ''title'') \<longrightarrow> title ?g = title g"
      "\<not> truthy (body_field b ''releaseYear'') \<longrightarrow> releaseYear ?g = releaseYear g"
      "\<not> truthy (body_field b ''platforms'') \<longrightarrow> platforms ?g = platforms g"
      "\<not> truthy (body_field b ''genre'') \<longrightarrow> genre ?g = genre g"
      "\<not> truthy (body_field b ''description'') \<longrightarrow> game.description ?g = game.description g"
      "\<not> truthy (body_field b ''developer'') \<longrightarrow> developer ?g = developer g"
      "\<not> truthy (body_field b ''mainCharacters'') \<longrightarrow> mainCharacters ?g = mainCharacters g"
      using cast_update_absent[OF updated(1)]
      by (simp_all add: u_def if_truthy_def apply_update_frame)
    show ?thesis
      using found fields noop
      by (intro exI[of _ ?g]) (simp add: updated(2) apply_update_frame)
  qed
qed

theorem patch_keeps_absent_and_falsy_fields_witness:
  "(\<exists>g'. Games_findById
            (snd (updateGameByIdPatch strict_mongoose demo_store ''65f0a1b2c3d4e5f600000002''
               (JObj [(''genre'', JStr ''Action''), (''title'', JStr []),
                      (''releaseYear'', JNum (Fin 0))])))
            ''65f0a1b2c3d4e5f600000002'' = Some g'
        \<and> title g' = ''Resident Evil 2'' \<and> releaseYear g' = Fin 1998
        \<and> platforms g' = [''PlayStation''])
   \<and> updateGameByIdPatch strict_mongoose demo_store ''65f0a1b2c3d4e5f600000002'' (JObj [])
       = ((200, GameBody (demo_game ''65f0a1b2c3d4e5f600000002'' ''Resident Evil 2'')),
          demo_store)"
proof -
  have v: "ObjectId_isValid strict_mongoose (JStr ''65f0a1b2c3d4e5f600000002'')"
    and c: "castObjectId strict_mongoose ''65f0a1b2c3d4e5f600000002''
              = Some ''65f0a1b2c3d4e5f600000002''"
    by (simp_all add: library_defs)
  have f: "Games_findById demo_store ''65f0a1b2c3d4e5f600000002''
             = Some (demo_game ''65f0a1b2c3d4e5f600000002'' ''Resident Evil 2'')"
    by (simp add: Games_findById_def demo_store_def demo_game_def)
  note a = patch_keeps_absent_and_falsy_fields[OF v c f,
      of "JObj [(''genre'', JStr ''Action''), (''title'', JStr []), (''releaseYear'', JNum (Fin 0))]"]
  note b = patch_keeps_absent_and_falsy_fields[OF v c f, of "JObj []"]
  have 1: "\<exists>g'. Games_findById
            (snd (updateGameByIdPatch strict_mongoose demo_store ''65f0a1b2c3d4e5f600000002''
               (JObj [(''genre'', JStr ''Action''), (''title'', JStr []),
                      (''releaseYear'', JNum (Fin 0))])))
            ''65f0a1b2c3d4e5f600000002'' = Some g'
        \<and> title g' = ''Resident Evil 2'' \<and> releaseYear g' = Fin 1998
        \<and> platforms g' = [''PlayStation'']"
    using a by (auto simp: demo_game_def)
  have 2: "updateGameByIdPatch strict_mongoose demo_store ''65f0a1b2c3d4e5f600000002'' (JObj [])
       = ((200, GameBody (demo_game ''65f0a1b2c3d4e5f600000002'' ''Resident Evil 2'')),
          demo_store)"
    using b by auto
  show ?thesis using 1 2 by (rule conjI)
qed

lemma createGame_status:
  "fst (fst (createGame M new_id db b)) = 400 \<longleftrightarrow> first_missing b createGame_requiredFields \<noteq> None"
  by (auto simp: createGame_def internal_server_error_def split: option.splits)

text \<open>
  C6, as amended. The required fields of PUT are the six of create followed by
  \<open>mainCharacters\<close>. A PUT on a valid identifier is answered 400 for the first of the
  seven that is missing, so one whose body has no truthy \<open>mainCharacters\<close> is always
  answered 400 for a missing required field, and for \<open>mainCharacters\<close> itself when the
  six other fields are given; the store is unchanged. A create is never answered 400
  for \<open>mainCharacters\<close>, and a create with the six fields is not answered 400 at all.
\<close>

theorem put_requires_mainCharacters:
  \<open>(ObjectId_isValid M (JStr gid) \<and> updateGameById_requiredFields = pre @ f # post
        \<and> (\<forall>g\<in>set pre. truthy (body_field b g)) \<and> \<not> truthy (body_field b f)
      \<longrightarrow> updateGameById M db gid b =
            ((400, Message (''The field "'' @ f @ ''" is required'')), db))
   \<and> (ObjectId_isValid M (JStr gid) \<and> \<not> truthy (body_field b ''mainCharacters'')
      \<longrightarrow> (\<exists>f\<in>set updateGameById_requiredFields.
             updateGameById M db gid b = ((400, Message (''The field "'' @ f @ ''" is required'')), db)))
   \<and> (ObjectId_isValid M (JStr gid)
        \<and> (\<forall>f\<in>set createGame_requiredFields. truthy (body_field b f))
        \<and> \<not> truthy (body_field b ''mainCharacters'')
      \<longrightarrow> updateGameById M db gid b =
            ((400, Message ''The field "mainCharacters" is required''), db))
   \<and> fst (createGame M new_id db b) \<noteq> (400, Message ''The field "mainCharacters" is required'')
   \<and> ((\<forall>f\<in>set createGame_requiredFields. truthy (body_field b f))
      \<longrightarrow> fst (fst (createGame M new_id db b)) \<noteq> 400)
   \<and> updateGameById_requiredFields = createGame_requiredFields @ [''mainCharacters'']\<close>
proof -
  have lists: "updateGameById_requiredFields = createGame_requiredFields @ [''mainCharacters'']"
    by (simp add: updateGameById_requiredFields_def createGame_requiredFields_def)
  have put: "updateGameById M db gid b = ((400, Message (required_message f)), db)"
    if "ObjectId_isValid M (JStr gid)" "first_missing b updateGameById_requiredFields = Some f" for f
    using that by (simp add: updateGameById_def)
  have 0: "ObjectId_isValid M (JStr gid) \<and> updateGameById_requiredFields = pre @ f # post
        \<and> (\<forall>g\<in>set pre. truthy (body_field b g)) \<and> \<not> truthy (body_field b f)
      \<longrightarrow> updateGameById M db gid b = ((400, Message (required_message f)), db)"
    using put[of f] first_missing_split[of updateGameById_requiredFields pre f post b]
    by blast
  have 1: "ObjectId_isValid M (JStr gid) \<and> \<not> truthy (body_field b ''mainCharacters'')
      \<longrightarrow> (\<exists>f\<in>set updateGameById_requiredFields.
             updateGameById M db gid b = ((400, Message (required_message f)), db))"
  proof
    assume a: "ObjectId_isValid M (JStr gid) \<and> \<not> truthy (body_field b ''mainCharacters'')"
    then have "\<exists>f\<in>set updateGameById_requiredFields. \<not> truthy (body_field b f)"
      by (auto simp: updateGameById_requiredFields_def)
    then obtain f where f: "first_missing b updateGameById_requiredFields = Some f"
      using first_missing_ex by blast
    with first_missing_mem have "f \<in> set updateGameById_requiredFields" by blast
    with put[OF _ f] a show "\<exists>f\<in>set updateGameById_requiredFields.
             updateGameById M db gid b = ((400, Message (required_message f)), db)"
      by blast
  qed
  have 2: "ObjectId_isValid M (JStr gid)
        \<and> (\<forall>f\<in>set createGame_requiredFields. truthy (body_field b f))
        \<and> \<not> truthy (body_field b ''mainCharacters'')
      \<longrightarrow> updateGameById M db gid b = ((400, Message (required_message ''mainCharacters'')), db)"
  proof
    assume a: "ObjectId_isValid M (JStr gid)
        \<and> (\<forall>f\<in>set createGame_requiredFields. truthy (body_field b f))
        \<and> \<not> truthy (body_field b ''mainCharacters'')"
    then have "first_missing b updateGameById_requiredFields = Some ''mainCharacters''"
      unfolding lists by (intro first_missing_split[where post = "[]"]) auto
    with a show "updateGameById M db gid b = ((400, Message (required_message ''mainCharacters'')), db)"
      by (simp add: put)
  qed
  have 3: "fst (createGame M new_id db b) \<noteq> (400, Message (required_message ''mainCharacters''))"
  proof
    assume "fst (createGame M new_id db b) = (400, Message (required_message ''mainCharacters''))"
    then have "createGame M new_id db b =
        ((400, Message (required_message ''mainCharacters'')), snd (createGame M new_id db b))"
      by (metis prod.collapse)
    then have "first_missing b createGame_requiredFields = Some ''mainCharacters''"
      by (simp add: createGame_required_iff)
    then have "''mainCharacters'' \<in> set createGame_requiredFields"
      using first_missing_mem by blast
    then show False by (simp add: createGame_requiredFields_def)
  qed
  have 4: "(\<forall>f\<in>set createGame_requiredFields. truthy (body_field b f))
      \<longrightarrow> fst (fst (createGame M new_id db b)) \<noteq> 400"
    by (simp add: createGame_status first_missing_None)
  have b2: \<open>ObjectId_isValid M (JStr gid)
        \<and> (\<forall>f\<in>set createGame_requiredFields. truthy (body_field b f))
        \<and> \<not> truthy (body_field b ''mainCharacters'')
      \<longrightarrow> updateGameById M db gid b =
            ((400, Message ''The field "mainCharacters" is required''), db)\<close>
    using 2 by (simp add: required_message_def)
  have b3: \<open>fst (createGame M new_id db b) \<noteq> (400, Message ''The field "mainCharacters" is required'')\<close>
    using 3 by (simp add: required_message_def)
  have msg: "\<And>f. ''The field \"'' @ f @ ''\" is required'' = required_message f"
    by (simp add: required_message_def)
  show ?thesis
    unfolding msg by (intro conjI) (rule 0 1 b2 b3 4 lists)+
qed

theorem put_requires_mainCharacters_witness:
  \<open>updateGameById strict_mongoose demo_store ''65f0a1b2c3d4e5f600000002''
      (JObj [(''title'', JStr ''Resident Evil 5''), (''releaseYear'', JNum (Fin 2009)),
             (''platforms'', JArr [JStr ''PlayStation 3'']), (''genre'', JStr ''Action''),
             (''description'', JStr ''Kijuju''), (''developer'', JStr ''Capcom'')])
     = ((400, Message ''The field "mainCharacters" is required''), demo_store)
   \<and> fst (fst (createGame strict_mongoose ''65f0a1b2c3d4e5f600000009'' demo_store
      (JObj [(''title'', JStr ''Resident Evil 5''), (''releaseYear'', JNum (Fin 2009)),
             (''platforms'', JArr [JStr ''PlayStation 3'']), (''genre'', JStr ''Action''),
             (''description'', JStr ''Kijuju''), (''developer'', JStr ''Capcom'')]))) \<noteq> 400\<close>
proof -
  have v: "ObjectId_isValid strict_mongoose (JStr ''65f0a1b2c3d4e5f600000002'')"
    by (simp add: library_defs)
  show ?thesis
    using v put_requires_mainCharacters[where M = strict_mongoose and db = demo_store
        and gid = "''65f0a1b2c3d4e5f600000002''" and new_id = "''65f0a1b2c3d4e5f600000009''"
        and b = "JObj [(''title'', JStr ''Resident Evil 5''), (''releaseYear'', JNum (Fin 2009)),
             (''platforms'', JArr [JStr ''PlayStation 3'']), (''genre'', JStr ''Action''),
             (''description'', JStr ''Kijuju''), (''developer'', JStr ''Capcom'')]"]
    by (simp add: createGame_requiredFields_def)
qed

text \<open>
  Counterexample to C6 in the specification's wording, where every PUT without
  \<open>mainCharacters\<close> is answered for \<open>mainCharacters\<close>: a PUT with an empty body has no
  \<open>mainCharacters\<close>, and is answered for \<open>title\<close>, the first field of the list.
\<close>

theorem put_empty_body_names_title:
  \<open>updateGameById strict_mongoose demo_store ''65f0a1b2c3d4e5f600000002'' (JObj [])
     = ((400, Message ''The field "title" is required''), demo_store)\<close>
  by (simp add: updateGameById_def updateGameById_requiredFields_def required_message_def
      library_defs)

lemma createCharacter_games_rejected:
  "first_missing b createCharacter_requiredFields = None \<Longrightarrow>
   body_field b ''games'' = Some (JArr ids) \<Longrightarrow> \<not> list_all (ObjectId_isValid M) ids \<Longrightarrow>
   createCharacter M new_id db b =
     ((400, Message ''Invalid game ID(s) in the 'games' field''), db)"
  by (simp add: createCharacter_def games_rejected_def)

section \<open>Identifiers\<close>

text \<open>
  C7, as amended. A get, PUT, PATCH or DELETE by an identifier that the library does not
  accept as valid is answered 400 with \<open>Invalid GameID format\<close>, whatever the store
  holds, and the store is unchanged. A character create whose \<open>games\<close> array has an
  element that is not a valid identifier is answered 400 and stores nothing; the message
  is \<open>Invalid game ID(s) in the 'games' field\<close> when the eight required fields are all
  given.
\<close>

theorem invalid_identifier_rejected:
  "(\<not> ObjectId_isValid M (JStr gid)
      \<longrightarrow> getGameById M db gid = (400, Message ''Invalid GameID format'')
        \<and> updateGameById M db gid b = ((400, Message ''Invalid GameID format''), db)
        \<and> updateGameByIdPatch M db gid b = ((400, Message ''Invalid GameID format''), db)
        \<and> deleteGameById M db gid = ((400, Message ''Invalid GameID format''), db))
   \<and> ((\<forall>f\<in>set createCharacter_requiredFields. truthy (body_field b' f))
        \<and> body_field b' ''games'' = Some (JArr ids) \<and> (\<exists>x\<in>set ids. \<not> ObjectId_isValid M x)
      \<longrightarrow> createCharacter M new_id db b' =
            ((400, Message ''Invalid game ID(s) in the 'games' field''), db))
   \<and> (body_field b' ''games'' = Some (JArr ids) \<and> (\<exists>x\<in>set ids. \<not> ObjectId_isValid M x)
      \<longrightarrow> fst (fst (createCharacter M new_id db b')) = 400
        \<and> snd (createCharacter M new_id db b') = db)"
proof -
  have 1: "\<not> ObjectId_isValid M (JStr gid)
      \<longrightarrow> getGameById M db gid = (400, Message ''Invalid GameID format'')
        \<and> updateGameById M db gid b = ((400, Message ''Invalid GameID format''), db)
        \<and> updateGameByIdPatch M db gid b = ((400, Message ''Invalid GameID format''), db)
        \<and> deleteGameById M db gid = ((400, Message ''Invalid GameID format''), db)"
    by (simp add: getGameById_def updateGameById_def updateGameByIdPatch_def deleteGameById_def)
  have 2: "(\<forall>f\<in>set createCharacter_requiredFields. truthy (body_field b' f))
        \<and> body_field b' ''games'' = Some (JArr ids) \<and> (\<exists>x\<in>set ids. \<not> ObjectId_isValid M x)
      \<longrightarrow> createCharacter M new_id db b' =
            ((400, Message ''Invalid game ID(s) in the 'games' field''), db)"
    using createCharacter_games_rejected[of b' ids M new_id db]
    by (auto simp: first_missing_None list_all_iff)
  have 3: "body_field b' ''games'' = Some (JArr ids) \<and> (\<exists>x\<in>set ids. \<not> ObjectId_isValid M x)
      \<longrightarrow> fst (fst (createCharacter M new_id db b')) = 400
        \<and> snd (createCharacter M new_id db b') = db"
  proof (cases "first_missing b' createCharacter_requiredFields")
    case None
    then show ?thesis
      using createCharacter_games_rejected[of b' ids M new_id db]
      by (auto simp: list_all_iff)
  next
    case (Some f)
    then show ?thesis by (simp add: createCharacter_def)
  qed
  show ?thesis by (intro conjI) (rule 1 2 3)+
qed

theorem invalid_identifier_rejected_witness:
  "getGameById strict_mongoose demo_store ''abc'' = (400, Message ''Invalid GameID format'')
   \<and> deleteGameById strict_mongoose demo_store ''abc''
       = ((400, Message ''Invalid GameID format''), demo_store)
   \<and> createCharacter strict_mongoose ''65f0a1b2c3d4e5f60000000a'' demo_store
       (JObj [(''name'', JStr ''Jill Valentine''), (''description'', JStr ''S.T.A.R.S.''),
              (''age'', JNum (Fin 23)), (''nationality'', JStr ''American''),
              (''height'', JStr ''166 cm''), (''weight'', JStr ''50 kg''),
              (''occupations'', JArr [JStr ''Officer'']),
              (''games'', JArr [JStr ''65f0a1b2c3d4e5f600000001'', JStr ''abc''])])
       = ((400, Message ''Invalid game ID(s) in the 'games' field''), demo_store)"
proof -
  have v: "\<not> ObjectId_isValid strict_mongoose (JStr ''abc'')"
    by (simp add: library_defs)
  show ?thesis
    using v invalid_identifier_rejected[where M = strict_mongoose and db = demo_store
        and gid = "''abc''" and new_id = "''65f0a1b2c3d4e5f60000000a''"
        and ids = "[JStr ''65f0a1b2c3d4e5f600000001'', JStr ''abc'']"
        and b' = "JObj [(''name'', JStr ''Jill Valentine''), (''description'', JStr ''S.T.A.R.S.''),
              (''age'', JNum (Fin 23)), (''nationality'', JStr ''American''),
              (''height'', JStr ''166 cm''), (''weight'', JStr ''50 kg''),
              (''occupations'', JArr [JStr ''Officer'']),
              (''games'', JArr [JStr ''65f0a1b2c3d4e5f600000001'', JStr ''abc''])]"]
    by (simp add: createCharacter_requiredFields_def)
qed

text \<open>
  Counterexample to C7 in the specification's wording, where an invalid element of
  \<open>games\<close> always brings the message about \<open>games\<close>: a character body with only a
  \<open>games\<close> array that holds \<open>"abc"\<close> is answered for \<open>name\<close>, which the handler checks
  first.
\<close>

theorem invalid_games_without_name:
  \<open>createCharacter strict_mongoose ''65f0a1b2c3d4e5f60000000a'' demo_store
      (JObj [(''games'', JArr [JStr ''abc''])])
     = ((400, Message ''The field "name" is required''), demo_store)\<close>
  by (simp add: createCharacter_def createCharacter_requiredFields_def required_message_def)

section \<open>Created games\<close>

lemma createGame_created:
  assumes "createGame M new_id db b = ((201, GameBody g), db')"
  shows "first_missing b createGame_requiredFields = None"
    and "Games_new M new_id (body_field b ''title'') (body_field b ''releaseYear'')
           (body_field b ''platforms'') (body_field b ''genre'')
           (body_field b ''description'') (body_field b ''developer'') = Some g"
    and "Games_save M db g = Some db'"
  using assms
  by (auto simp: createGame_def internal_server_error_def split: option.splits)

lemma Games_save_Some:
  "Games_save M db g = Some db' \<Longrightarrow>
     db' = db\<lparr>Games := Games db @ [g]\<rparr> \<and> game_id g \<notin> set (map game_id (Games db))"
  by (auto simp: Games_save_def split: if_splits)

lemma find_appended: "\<forall>x\<in>set xs. \<not> P x \<Longrightarrow> P y \<Longrightarrow> find P (xs @ [y]) = Some y"
  by (induction xs) auto

lemma Games_new_Some:
  assumes "Games_new M new_id t y p gn d dv = Some g"
  shows "game_id g = new_id" and "mainCharacters g = []" and "enemies g = []"
    and "locations g = []"
    and "cast_path (castString M) t = Some (title g)"
    and "cast_path (castNumber M) y = Some (releaseYear g)"
    and "cast_array (castStringArray M) p = Some (platforms g)"
    and "cast_path (castString M) gn = Some (genre g)"
    and "cast_path (castString M) d = Some (game.description g)"
    and "cast_path (castString M) dv = Some (developer g)"
  using assms by (auto simp: Games_new_def split: Option.bind_splits)

lemma first_missing_cong:
  "\<forall>f\<in>set fs. body_field b' f = body_field b f \<Longrightarrow> first_missing b' fs = first_missing b fs"
  by (induction fs) auto

text \<open>
  C8. When \<open>createGame\<close> answers 201 with a game, a get-by-id request for that game's
  identifier on the store that the create left answers 200 with the same game, given
  that the library accepts the identifier it generated and casts it to itself.
\<close>

theorem created_game_is_retrievable:
  assumes "createGame M new_id db b = ((201, GameBody g), db')"
    and "ObjectId_isValid M (JStr (game_id g))"
    and "castObjectId M (game_id g) = Some (game_id g)"
  shows "getGameById M db' (game_id g) = (200, GameBody g)"
proof -
  from Games_save_Some[OF createGame_created(3)[OF assms(1)]]
  have db': "db' = db\<lparr>Games := Games db @ [g]\<rparr>"
    and fresh: "game_id g \<notin> set (map game_id (Games db))"
    by simp_all
  from fresh have "\<forall>x\<in>set (Games db). \<not> game_id x = game_id g"
    by (metis image_eqI set_map)
  then have "find (\<lambda>x. game_id x = game_id g) (Games db @ [g]) = Some g"
    by (rule find_appended) simp
  then have "Games_findById db' (game_id g) = Some g"
    by (simp add: Games_findById_def db')
  with assms(2,3) show ?thesis
    by (simp add: getGameById_def)
qed

theorem created_game_is_retrievable_witness:
  \<open>getGameById strict_mongoose
      (demo_store\<lparr>Games := Games demo_store @
         [\<lparr>game_id = ''65f0a1b2c3d4e5f600000009'', title = ''Resident Evil 5'',
           releaseYear = Fin 2009, platforms = [''PlayStation 3''], genre = ''Action'',
           game.description = ''Kijuju'', mainCharacters = [], enemies = [], locations = [],
           developer = ''Capcom''\<rparr>]\<rparr>)
      ''65f0a1b2c3d4e5f600000009''
    = (200, GameBody \<lparr>game_id = ''65f0a1b2c3d4e5f600000009'', title = ''Resident Evil 5'',
           releaseYear = Fin 2009, platforms = [''PlayStation 3''], genre = ''Action'',
           game.description = ''Kijuju'', mainCharacters = [], enemies = [], locations = [],
           developer = ''Capcom''\<rparr>)\<close>
proof -
  let ?g = "\<lparr>game_id = ''65f0a1b2c3d4e5f600000009'', title = ''Resident Evil 5'',
           releaseYear = Fin 2009, platforms = [''PlayStation 3''], genre = ''Action'',
           game.description = ''Kijuju'', mainCharacters = [], enemies = [], locations = [],
           developer = ''Capcom''\<rparr>"
  have c: "createGame strict_mongoose ''65f0a1b2c3d4e5f600000009'' demo_store
      (JObj [(''title'', JStr ''Resident Evil 5''), (''releaseYear'', JNum (Fin 2009)),
             (''platforms'', JArr [JStr ''PlayStation 3'']), (''genre'', JStr ''Action''),
             (''description'', JStr ''Kijuju''), (''developer'', JStr ''Capcom'')])
     = ((201, GameBody ?g), demo_store\<lparr>Games := Games demo_store @ [?g]\<rparr>)"
    by (simp add: createGame_def createGame_requiredFields_def Games_new_def Games_save_def
      cast_path_def cast_array_def strict_mongoose_def strict_string_def demo_store_def
      demo_game_def)
  have v: "ObjectId_isValid strict_mongoose (JStr (game_id ?g))"
    and k: "castObjectId strict_mongoose (game_id ?g) = Some (game_id ?g)"
    by (simp_all add: library_defs)
  from created_game_is_retrievable[OF c v k] show ?thesis
    by simp
qed

text \<open>
  C9. A game that \<open>createGame\<close> answers 201 with has the generated identifier, the casts
  of the six validated body fields, and empty \<open>mainCharacters\<close>, \<open>enemies\<close> and
  \<open>locations\<close>; it is the one document added to the store. The outcome of a create
  depends on the body through the six validated fields only, so whatever else the body
  holds is discarded.
\<close>

theorem created_game_has_six_fields:
  "(createGame M new_id db b = ((201, GameBody g), db')
      \<longrightarrow> mainCharacters g = [] \<and> enemies g = [] \<and> locations g = [] \<and> game_id g = new_id
        \<and> db' = db\<lparr>Games := Games db @ [g]\<rparr>
        \<and> cast_path (castString M) (body_field b ''title'') = Some (title g)
        \<and> cast_path (castNumber M) (body_field b ''releaseYear'') = Some (releaseYear g)
        \<and> cast_array (castStringArray M) (body_field b ''platforms'') = Some (platforms g)
        \<and> cast_path (castString M) (body_field b ''genre'') = Some (genre g)
        \<and> cast_path (castString M) (body_field b ''description'') = Some (game.description g)
        \<and> cast_path (castString M) (body_field b ''developer'') = Some (developer g))
   \<and> ((\<forall>f\<in>set createGame_requiredFields. body_field b' f = body_field b f)
      \<longrightarrow> createGame M new_id db b' = createGame M new_id db b)"
proof -
  have 1: "createGame M new_id db b = ((201, GameBody g), db')
      \<longrightarrow> mainCharacters g = [] \<and> enemies g = [] \<and> locations g = [] \<and> game_id g = new_id
        \<and> db' = db\<lparr>Games := Games db @ [g]\<rparr>
        \<and> cast_path (castString M) (body_field b ''title'') = Some (title g)
        \<and> cast_path (castNumber M) (body_field b ''releaseYear'') = Some (releaseYear g)
        \<and> cast_array (castStringArray M) (body_field b ''platforms'') = Some (platforms g)
        \<and> cast_path (castString M) (body_field b ''genre'') = Some (genre g)
        \<and> cast_path (castString M) (body_field b ''description'') = Some (game.description g)
        \<and> cast_path (castString M) (body_field b ''developer'') = Some (developer g)"
  proof
    assume a: "createGame M new_id db b = ((201, GameBody g), db')"
    note n = Games_new_Some[OF createGame_created(2)[OF a]]
    note s = Games_save_Some[OF createGame_created(3)[OF a]]
    from n s show "mainCharacters g = [] \<and> enemies g = [] \<and> locations g = [] \<and> game_id g = new_id
        \<and> db' = db\<lparr>Games := Games db @ [g]\<rparr>
        \<and> cast_path (castString M) (body_field b ''title'') = Some (title g)
        \<and> cast_path (castNumber M) (body_field b ''releaseYear'') = Some (releaseYear g)
        \<and> cast_array (castStringArray M) (body_field b ''platforms'') = Some (platforms g)
        \<and> cast_path (castString M) (body_field b ''genre'') = Some (genre g)
        \<and> cast_path (castString M) (body_field b ''description'') = Some (game.description g)
        \<and> cast_path (castString M) (body_field b ''developer'') = Some (developer g)"
      by (intro conjI) (simp_all only:)
  qed
  have 2: "(\<forall>f\<in>set createGame_requiredFields. body_field b' f = body_field b f)
      \<longrightarrow> createGame M new_id db b' = createGame M new_id db b"
  proof
    assume a: "\<forall>f\<in>set createGame_requiredFields. body_field b' f = body_field b f"
    then have "first_missing b' createGame_requiredFields = first_missing b createGame_requiredFields"
      by (rule first_missing_cong)
    moreover from a have "body_field b' ''title'' = body_field b ''title''"
      "body_field b' ''releaseYear'' = body_field b ''releaseYear''"
      "body_field b' ''platforms'' = body_field b ''platforms''"
      "body_field b' ''genre'' = body_field b ''genre''"
      "body_field b' ''description'' = body_field b ''description''"
      "body_field b' ''developer'' = body_field b ''developer''"
      by (simp_all add: createGame_requiredFields_def)
    ultimately show "createGame M new_id db b' = createGame M new_id db b"
      by (simp only: createGame_def)
  qed
  show ?thesis by (intro conjI) (rule 1 2)+
qed

theorem created_game_has_six_fields_witness:
  \<open>createGame strict_mongoose ''65f0a1b2c3d4e5f600000009'' demo_store
      (JObj [(''title'', JStr ''Resident Evil 5''), (''releaseYear'', JNum (Fin 2009)),
             (''platforms'', JArr [JStr ''PlayStation 3'']), (''genre'', JStr ''Action''),
             (''description'', JStr ''Kijuju''), (''developer'', JStr ''Capcom''),
             (''mainCharacters'', JArr [JStr ''65f0a1b2c3d4e5f60000000a'']),
             (''enemies'', JArr [JStr ''Majini'']), (''locations'', JArr [JStr ''Kijuju''])])
     = ((201, GameBody \<lparr>game_id = ''65f0a1b2c3d4e5f600000009'', title = ''Resident Evil 5'',
           releaseYear = Fin 2009, platforms = [''PlayStation 3''], genre = ''Action'',
           game.description = ''Kijuju'', mainCharacters = [], enemies = [], locations = [],
           developer = ''Capcom''\<rparr>),
        demo_store\<lparr>Games := Games demo_store @
          [\<lparr>game_id = ''65f0a1b2c3d4e5f600000009'', title = ''Resident Evil 5'',
           releaseYear = Fin 2009, platforms = [''PlayStation 3''], genre = ''Action'',
           game.description = ''Kijuju'', mainCharacters = [], enemies = [], locations = [],
           developer = ''Capcom''\<rparr>]\<rparr>)\<close>
proof -
  let ?g = "\<lparr>game_id = ''65f0a1b2c3d4e5f600000009'', title = ''Resident Evil 5'',
           releaseYear = Fin 2009, platforms = [''PlayStation 3''], genre = ''Action'',
           game.description = ''Kijuju'', mainCharacters = [], enemies = [], locations = [],
           developer = ''Capcom''\<rparr>"
  let ?b = "JObj [(''title'', JStr ''Resident Evil 5''), (''releaseYear'', JNum (Fin 2009)),
             (''platforms'', JArr [JStr ''PlayStation 3'']), (''genre'', JStr ''Action''),
             (''description'', JStr ''Kijuju''), (''developer'', JStr ''Capcom'')]"
  let ?b' = "JObj [(''title'', JStr ''Resident Evil 5''), (''releaseYear'', JNum (Fin 2009)),
             (''platforms'', JArr [JStr ''PlayStation 3'']), (''genre'', JStr ''Action''),
             (''description'', JStr ''Kijuju''), (''developer'', JStr ''Capcom''),
             (''mainCharacters'', JArr [JStr ''65f0a1b2c3d4e5f60000000a'']),
             (''enemies'', JArr [JStr ''Majini'']), (''locations'', JArr [JStr ''Kijuju''])]"
  have "snd (createGame strict_mongoose ''65f0a1b2c3d4e5f600000009'' demo_store ?b)
          = demo_store\<lparr>Games := Games demo_store @ [?g]\<rparr>"
    and "fst (createGame strict_mongoose ''65f0a1b2c3d4e5f600000009'' demo_store ?b)
          = (201, GameBody ?g)"
    by (simp_all add: createGame_def createGame_requiredFields_def Games_new_def Games_save_def
      cast_path_def cast_array_def strict_mongoose_def strict_string_def demo_store_def
      demo_game_def)
  then have c: "createGame strict_mongoose ''65f0a1b2c3d4e5f600000009'' demo_store ?b
     = ((201, GameBody ?g), demo_store\<lparr>Games := Games demo_store @ [?g]\<rparr>)"
    by (metis prod.collapse)
  have "\<forall>f\<in>set createGame_requiredFields. body_field ?b' f = body_field ?b f"
    by (simp add: createGame_requiredFields_def)
  with created_game_has_six_fields[where b = ?b and b' = ?b' and M = strict_mongoose
      and new_id = "''65f0a1b2c3d4e5f600000009''" and db = demo_store]
  have "createGame strict_mongoose ''65f0a1b2c3d4e5f600000009'' demo_store ?b'
      = createGame strict_mongoose ''65f0a1b2c3d4e5f600000009'' demo_store ?b"
    by blast
  with c show ?thesis by simp
qed

end
